theory Spec2Isabelle
  imports Main "HOL-Library.Word"
begin

section \<open>The OpenMP accelerator of alpaka: index arithmetic, block shared memory, dispatch loop\<close>

text \<open>
  The theory embeds \<^verbatim>\<open>include/alpaka/AccOpenMp.hpp\<close> (the classes \<^verbatim>\<open>IndexOpenMp\<close>,
  \<^verbatim>\<open>AccOpenMp\<close> and \<^verbatim>\<open>AccOpenMp::KernelExecutor\<close>) and the two default pitch traits of
  \<^verbatim>\<open>include/alpaka/traits/mem/View.hpp\<close> and \<^verbatim>\<open>include/alpaka/mem/view/Traits.hpp\<close>.
  Mutable members become fields of a record that every operation takes and returns; an
  exception leaves the state it was thrown in; behaviour that C++ or OpenMP leave undefined
  is a value of its own.
\<close>

subsection \<open>Machine integers and vectors\<close>

type_synonym u8 = "8 word"
type_synonym u32 = "32 word"

text \<open>
  Modelled from the spec: \<^verbatim>\<open>vec<3u>\<close> is declared in a header that is not among the sources.
  It is the spec's ``ordered tuple of N unsigned integers'', indexed \<^verbatim>\<open>[0]\<close>, \<^verbatim>\<open>[1]\<close>,
  \<^verbatim>\<open>[2]\<close>; its components have the width of the \<^verbatim>\<open>std::uint32_t\<close> loop counters and
  thread counts that \<^verbatim>\<open>AccOpenMp.hpp\<close> compares them with and initialises them from.
\<close>

type_synonym vec3 = "u32 \<times> u32 \<times> u32"

definition idx0 :: "vec3 \<Rightarrow> u32" where
  "idx0 v = fst v"

definition idx1 :: "vec3 \<Rightarrow> u32" where
  "idx1 v = fst (snd v)"

definition idx2 :: "vec3 \<Rightarrow> u32" where
  "idx2 v = snd (snd v)"

definition set_idx0 :: "u32 \<Rightarrow> vec3 \<Rightarrow> vec3" where
  "set_idx0 x v = (x, idx1 v, idx2 v)"

definition set_idx1 :: "u32 \<Rightarrow> vec3 \<Rightarrow> vec3" where
  "set_idx1 y v = (idx0 v, y, idx2 v)"

definition set_idx2 :: "u32 \<Rightarrow> vec3 \<Rightarrow> vec3" where
  "set_idx2 z v = (idx0 v, idx1 v, z)"

text \<open>The components of a vector read as natural numbers.\<close>

definition uvec :: "vec3 \<Rightarrow> nat \<times> nat \<times> nat" where
  "uvec v = (unat (idx0 v), unat (idx1 v), unat (idx2 v))"

text \<open>A coordinate is valid for an extent when every component is below the extent's.\<close>

definition valid_coord :: "vec3 \<Rightarrow> vec3 \<Rightarrow> bool" where
  "valid_coord c e \<longleftrightarrow> idx0 c < idx0 e \<and> idx1 c < idx1 e \<and> idx2 c < idx2 e"

subsection \<open>The work size\<close>

text \<open>
  \<^verbatim>\<open>IWorkSize<WorkSizeDefault>\<close>: the two extents of a work division, read by
  \<^verbatim>\<open>getSize<Grid, Blocks, D3>()\<close> and \<^verbatim>\<open>getSize<Block, Kernels, D3>()\<close>.
\<close>

record WorkSize =
  GridBlocks :: vec3
  BlockKernels :: vec3

text \<open>
  Modelled from the spec: \<^verbatim>\<open>getSize<Block, Kernels, Linear>()\<close> is declared in
  \<^verbatim>\<open>WorkSize.hpp\<close>, which is not among the sources. The spec calls it
  \<^verbatim>\<open>product(blockThreadExtent)\<close>: the product of the three components.
\<close>

definition getSizeBlockKernelsLinear :: "WorkSize \<Rightarrow> nat" where
  "getSizeBlockKernelsLinear w =
     unat (idx0 (BlockKernels w)) * unat (idx1 (BlockKernels w)) * unat (idx2 (BlockKernels w))"

definition getSizeGridBlocksLinear :: "WorkSize \<Rightarrow> nat" where
  "getSizeGridBlocksLinear w =
     unat (idx0 (GridBlocks w)) * unat (idx1 (GridBlocks w)) * unat (idx2 (GridBlocks w))"

subsection \<open>Failures\<close>

text \<open>
  \<^verbatim>\<open>RuntimeError n m\<close> is the \<^verbatim>\<open>std::runtime_error\<close> of the executor (``The given blockSize
  n is larger then the supported maximum of m''). The other failures are not exceptions:
  an unsigned division or remainder by zero is undefined in C++, and OpenMP requires the
  expression of a \<^verbatim>\<open>num_threads\<close> clause to be positive (the thread that meets a
  \<^verbatim>\<open>parallel\<close> construct is always a member of the team, so a team of no threads, which
  would leave the region unexecuted, does not exist).
\<close>

datatype error = RuntimeError nat nat

datatype undefined_behaviour = DivisionByZero | NumThreadsNotPositive

datatype 's outcome = Returned 's | Thrown error 's | Undefined undefined_behaviour

subsection \<open>IndexOpenMp\<close>

text \<open>
  \<^verbatim>\<open>IndexOpenMp::getIdxBlockKernel\<close>. The thread number \<open>t\<close> is what
  \<^verbatim>\<open>::omp_get_thread_num()\<close> returns: an \<^verbatim>\<open>int\<close> that is never negative, converted to
  the unsigned type of the extent by the arithmetic it takes part in. The products,
  remainders and quotients are those of 32-bit unsigned integers.
\<close>

definition getIdxBlockKernel :: "WorkSize \<Rightarrow> u32 \<Rightarrow> undefined_behaviour + vec3" where
  "getIdxBlockKernel m_WorkSize t =
     (let v3uiSizeBlockKernels = BlockKernels m_WorkSize in
      if idx1 v3uiSizeBlockKernels * idx0 v3uiSizeBlockKernels = 0 \<or> idx0 v3uiSizeBlockKernels = 0
      then Inl DivisionByZero
      else Inr
        ((t mod (idx1 v3uiSizeBlockKernels * idx0 v3uiSizeBlockKernels)) mod idx0 v3uiSizeBlockKernels,
         (t mod (idx1 v3uiSizeBlockKernels * idx0 v3uiSizeBlockKernels)) div idx0 v3uiSizeBlockKernels,
         t div (idx1 v3uiSizeBlockKernels * idx0 v3uiSizeBlockKernels)))"

text \<open>
  The rule of the specification, in its words, on natural numbers: for the extent
  \<open>(e0, e1, e2)\<close> and the linear id \<open>t\<close>, the coordinate is
  \<open>(t mod e0, (t / e0) mod e1, t / (e0 * e1))\<close>.
\<close>

definition delinearize :: "nat \<times> nat \<times> nat \<Rightarrow> nat \<Rightarrow> nat \<times> nat \<times> nat" where
  "delinearize e t =
     (case e of (e0, e1, e2) \<Rightarrow> (t mod e0, (t div e0) mod e1, t div (e0 * e1)))"

text \<open>
  Modelled from the spec: the linearization of a coordinate is part of \<^verbatim>\<open>Index.hpp\<close>, which
  is not among the sources. Under the convention of the rule above (axis order x, y, z)
  the coordinate \<open>(c0, c1, c2)\<close> of the extent \<open>(e0, e1, e2)\<close> has the linear id
  \<open>c0 + c1 * e0 + c2 * e0 * e1\<close>.
\<close>

definition linearize :: "nat \<times> nat \<times> nat \<Rightarrow> nat \<times> nat \<times> nat \<Rightarrow> nat" where
  "linearize c e =
     (case c of (c0, c1, c2) \<Rightarrow> case e of (e0, e1, e2) \<Rightarrow> c0 + c1 * e0 + c2 * e0 * e1)"

subsection \<open>AccOpenMp: the state of an accelerator instance\<close>

text \<open>
  The mutable members of \<^verbatim>\<open>AccOpenMp\<close> and the work size it inherits. The shared memory
  is a \<^verbatim>\<open>std::vector<std::vector<uint8_t>>\<close>: a list of byte segments. The last field is
  not a member of the class: it records every invocation of the kernel body, with the
  grid-block index the invocation could read through \<^verbatim>\<open>getIdxGridBlock\<close>, the thread
  number of the invoking thread and the arguments it was given.
\<close>

record 'a AccOpenMp =
  m_WorkSize :: WorkSize
  m_v3uiGridBlockIdx :: vec3
  m_vvuiSharedMem :: "u8 list list"
  m_vuiExternalSharedMem :: "u8 list"
  kernelCalls :: "(vec3 \<times> u32 \<times> 'a) list"

definition getIdxGridBlock :: "'a AccOpenMp \<Rightarrow> vec3" where
  "getIdxGridBlock s = m_v3uiGridBlockIdx s"

text \<open>\<^verbatim>\<open>syncBlockKernels\<close> is \<^verbatim>\<open>#pragma omp barrier\<close>: it changes no member.\<close>

definition syncBlockKernels :: "'a AccOpenMp \<Rightarrow> 'a AccOpenMp" where
  "syncBlockKernels s = s"

text \<open>
  The threads of a team are numbered from 0. No theorem below depends on the order in
  which the model lets them act between two barriers.
\<close>

definition team :: "u32 \<Rightarrow> u32 list" where
  "team n = map of_nat [0..<unat n]"

subsection \<open>Block shared memory\<close>

text \<open>
  \<^verbatim>\<open>m_vvuiSharedMem.emplace_back(UiNumElements)\<close> constructs a new
  \<^verbatim>\<open>std::vector<uint8_t>\<close> from the count: \<open>UiNumElements\<close> bytes, all zero.
\<close>

definition emplace_back :: "nat \<Rightarrow> 'a AccOpenMp \<Rightarrow> 'a AccOpenMp" where
  "emplace_back UiNumElements s =
     s\<lparr>m_vvuiSharedMem := m_vvuiSharedMem s @ [replicate UiNumElements 0]\<rparr>"

text \<open>
  The address \<^verbatim>\<open>m_vvuiSharedMem.back().data()\<close> is the buffer of the last segment. A
  segment keeps its buffer as long as it is in the list, so the position of the segment
  in the list stands for the address. \<^verbatim>\<open>back()\<close> of an empty vector is undefined; the
  list is never empty where \<^verbatim>\<open>allocBlockSharedMem\<close> reads it, since thread 0 has appended.
\<close>

definition back_data :: "'a AccOpenMp \<Rightarrow> nat" where
  "back_data s = length (m_vvuiSharedMem s) - 1"

text \<open>
  The body of \<^verbatim>\<open>allocBlockSharedMem<T, UiNumElements>\<close>, run collectively by a team of
  \<open>n\<close> threads: a barrier, the append by the thread whose number is 0, a barrier, and the
  address each thread returns. The size of \<^verbatim>\<open>T\<close> is a template argument of the function
  and takes no part in the body.
\<close>

definition allocBlockSharedMem_body ::
  "nat \<Rightarrow> nat \<Rightarrow> u32 \<Rightarrow> 'a AccOpenMp \<Rightarrow> 'a AccOpenMp \<times> nat list" where
  "allocBlockSharedMem_body sizeofT UiNumElements n s =
     (let s1 = syncBlockKernels s;
          s2 = fold (\<lambda>t s. if t = 0 then emplace_back UiNumElements s else s) (team n) s1;
          s3 = syncBlockKernels s2
      in (s3, map (\<lambda>t. back_data s3) (team n)))"

text \<open>
  The \<^verbatim>\<open>static_assert(UiNumElements > 0, ...)\<close> is checked when the template is
  instantiated: an instantiation is either rejected by the compiler or yields the
  function that runs.
\<close>

datatype build_error = StaticAssertNumElementsZero

definition allocBlockSharedMem ::
  "nat \<Rightarrow> nat \<Rightarrow> build_error + (u32 \<Rightarrow> 'a AccOpenMp \<Rightarrow> 'a AccOpenMp \<times> nat list)" where
  "allocBlockSharedMem sizeofT UiNumElements =
     (if UiNumElements > 0 then Inr (allocBlockSharedMem_body sizeofT UiNumElements)
      else Inl StaticAssertNumElementsZero)"

subsection \<open>The kernel\<close>

text \<open>
  The kernel body is the caller's code. What it does to the accelerator it does through
  the accelerator's interface: of a kernel the model keeps the size function that
  \<^verbatim>\<open>BlockSharedExternMemSizeBytes<TAcceleratedKernel>\<close> supplies, and the instantiations
  \<^verbatim>\<open>allocBlockSharedMem<T, UiNumElements>\<close> that every thread of a block calls, in program
  order, each as the pair \<open>(sizeof(T), UiNumElements)\<close>.
\<close>

record Kernel =
  getBlockSharedExternMemSizeBytes :: "vec3 \<Rightarrow> nat"
  blockSharedMemAllocs :: "(nat \<times> nat) list"

subsection \<open>KernelExecutor\<close>

text \<open>\<^verbatim>\<open>std::vector::resize\<close>: the first elements are kept, new ones are zero.\<close>

definition resize :: "nat \<Rightarrow> u8 list \<Rightarrow> u8 list" where
  "resize n xs = take n xs @ replicate (n - length xs) 0"

text \<open>
  The body of the innermost loop. The \<^verbatim>\<open>parallel\<close> region runs with the number of
  threads of the \<^verbatim>\<open>num_threads\<close> clause (\<^verbatim>\<open>::omp_set_dynamic(0)\<close>), which OpenMP requires
  to be positive; every thread of the team invokes the kernel with the forwarded
  arguments, the collective allocations of the body follow, and the region ends with
  \<^verbatim>\<open>syncBlockKernels\<close>. The arguments are a value: what \<^verbatim>\<open>std::forward\<close> hands to one
  invocation is what it hands to the next.
\<close>

definition runKernelBody :: "Kernel \<Rightarrow> u32 \<Rightarrow> 'a AccOpenMp \<Rightarrow> 'a AccOpenMp" where
  "runKernelBody K n s =
     fold (\<lambda>(sizeofT, UiNumElements) s. fst (allocBlockSharedMem_body sizeofT UiNumElements n s))
       (blockSharedMemAllocs K) s"

definition blockCalls :: "'a \<Rightarrow> u32 \<Rightarrow> vec3 \<Rightarrow> (vec3 \<times> u32 \<times> 'a) list" where
  "blockCalls args n v3uiGridBlockIdx = map (\<lambda>t. (v3uiGridBlockIdx, t, args)) (team n)"

definition executeBlock :: "Kernel \<Rightarrow> 'a \<Rightarrow> 'a AccOpenMp \<Rightarrow> 'a AccOpenMp outcome" where
  "executeBlock K args s =
     (let uiNumKernelsInBlock = (of_nat (getSizeBlockKernelsLinear (m_WorkSize s)) :: u32) in
      if uiNumKernelsInBlock = 0 then Undefined NumThreadsNotPositive
      else
        let s1 = s\<lparr>kernelCalls := kernelCalls s
                     @ blockCalls args uiNumKernelsInBlock (getIdxGridBlock s)\<rparr>;
            s2 = runKernelBody K uiNumKernelsInBlock s1
        in Returned (syncBlockKernels s2))"

text \<open>
  \<^verbatim>\<open>for(std::uint32_t b(0); b < n; ++b)\<close>: the counter takes the values \<open>0, \<dots>, n - 1\<close>
  and never wraps; the loop stops where its body does not return.
\<close>

fun iterate :: "(u32 \<Rightarrow> 's \<Rightarrow> 's outcome) \<Rightarrow> nat list \<Rightarrow> 's \<Rightarrow> 's outcome" where
  "iterate body [] s = Returned s"
| "iterate body (b # bs) s =
     (case body (of_nat b) s of
        Returned s' \<Rightarrow> iterate body bs s'
      | Thrown e s' \<Rightarrow> Thrown e s'
      | Undefined u \<Rightarrow> Undefined u)"

definition for_u32 :: "u32 \<Rightarrow> (u32 \<Rightarrow> 's \<Rightarrow> 's outcome) \<Rightarrow> 's \<Rightarrow> 's outcome" where
  "for_u32 n body s = iterate body [0..<unat n] s"

definition loop_bx :: "Kernel \<Rightarrow> 'a \<Rightarrow> 'a AccOpenMp \<Rightarrow> 'a AccOpenMp outcome" where
  "loop_bx K args s =
     for_u32 (idx0 (GridBlocks (m_WorkSize s)))
       (\<lambda>bx s. executeBlock K args
                 (s\<lparr>m_v3uiGridBlockIdx := set_idx0 bx (m_v3uiGridBlockIdx s)\<rparr>)) s"

definition loop_by :: "Kernel \<Rightarrow> 'a \<Rightarrow> 'a AccOpenMp \<Rightarrow> 'a AccOpenMp outcome" where
  "loop_by K args s =
     for_u32 (idx1 (GridBlocks (m_WorkSize s)))
       (\<lambda>by s. loop_bx K args
                 (s\<lparr>m_v3uiGridBlockIdx := set_idx1 by (m_v3uiGridBlockIdx s)\<rparr>)) s"

definition loop_bz :: "Kernel \<Rightarrow> 'a \<Rightarrow> 'a AccOpenMp \<Rightarrow> 'a AccOpenMp outcome" where
  "loop_bz K args s =
     for_u32 (idx2 (GridBlocks (m_WorkSize s)))
       (\<lambda>bz s. loop_by K args
                 (s\<lparr>m_v3uiGridBlockIdx := set_idx2 bz (m_v3uiGridBlockIdx s)\<rparr>)) s"

text \<open>
  \<^verbatim>\<open>KernelExecutor::operator()\<close>. \<open>uiMaxKernelsPerBlock\<close> is the value of
  \<^verbatim>\<open>getSizeBlockKernelsLinearMax()\<close>, which the OpenMP runtime decides
  (\<^verbatim>\<open>::omp_get_max_threads()\<close>). The first statement assigns the caller's work size to the
  accelerator; the comparison, the \<^verbatim>\<open>throw\<close>, the resize of the external shared memory,
  the three loops and the two \<^verbatim>\<open>clear()\<close> follow in the order of the source.
\<close>

definition KernelExecutor_call ::
  "Kernel \<Rightarrow> u32 \<Rightarrow> WorkSize \<Rightarrow> 'a \<Rightarrow> 'a AccOpenMp \<Rightarrow> 'a AccOpenMp outcome" where
  "KernelExecutor_call K uiMaxKernelsPerBlock workSize args s0 =
     (let s = s0\<lparr>m_WorkSize := workSize\<rparr>;
          uiNumKernelsPerBlock = getSizeBlockKernelsLinear (m_WorkSize s)
      in
        if uiNumKernelsPerBlock > unat uiMaxKernelsPerBlock
        then Thrown (RuntimeError uiNumKernelsPerBlock (unat uiMaxKernelsPerBlock)) s
        else
          let v3uiSizeBlockKernels = BlockKernels (m_WorkSize s);
              s = s\<lparr>m_vuiExternalSharedMem :=
                      resize (getBlockSharedExternMemSizeBytes K v3uiSizeBlockKernels)
                        (m_vuiExternalSharedMem s)\<rparr>
          in case loop_bz K args s of
               Returned s' \<Rightarrow> Returned (s'\<lparr>m_vvuiSharedMem := [], m_vuiExternalSharedMem := []\<rparr>)
             | Thrown e s' \<Rightarrow> Thrown e s'
             | Undefined u \<Rightarrow> Undefined u)"

subsection \<open>What a launch produces\<close>

text \<open>
  The calls of one row, one plane and the whole grid of blocks, in the order of the three
  loops, for a team of \<open>n\<close> threads; and the segments that the threads of one block
  allocate.
\<close>

definition rowCalls :: "'a \<Rightarrow> u32 \<Rightarrow> u32 \<Rightarrow> u32 \<Rightarrow> u32 \<Rightarrow> (vec3 \<times> u32 \<times> 'a) list" where
  "rowCalls args n g0 y z = concat (map (\<lambda>bx. blockCalls args n (of_nat bx, y, z)) [0..<unat g0])"

definition planeCalls :: "'a \<Rightarrow> u32 \<Rightarrow> u32 \<Rightarrow> u32 \<Rightarrow> u32 \<Rightarrow> (vec3 \<times> u32 \<times> 'a) list" where
  "planeCalls args n g0 g1 z = concat (map (\<lambda>by. rowCalls args n g0 (of_nat by) z) [0..<unat g1])"

definition gridCalls :: "'a \<Rightarrow> u32 \<Rightarrow> vec3 \<Rightarrow> (vec3 \<times> u32 \<times> 'a) list" where
  "gridCalls args n g =
     concat (map (\<lambda>bz. planeCalls args n (idx0 g) (idx1 g) (of_nat bz)) [0..<unat (idx2 g)])"

definition segs :: "Kernel \<Rightarrow> u8 list list" where
  "segs K = map (\<lambda>(sizeofT, UiNumElements). replicate UiNumElements 0) (blockSharedMemAllocs K)"

text \<open>
  What an invocation observes: the grid-block index it reads through
  \<^verbatim>\<open>getIdxGridBlock\<close>, the block-thread index that \<^verbatim>\<open>getIdxBlockKernel\<close> derives from its
  thread number, and its arguments.
\<close>

definition observe ::
  "WorkSize \<Rightarrow> vec3 \<times> u32 \<times> 'a \<Rightarrow> vec3 \<times> (undefined_behaviour + vec3) \<times> 'a" where
  "observe ws call = (case call of (g, t, args) \<Rightarrow> (g, getIdxBlockKernel ws t, args))"

subsection \<open>Concrete kernels and accelerators\<close>

text \<open>
  A kernel that allocates nothing, a kernel whose threads allocate one element of a
  four-byte type, and an accelerator instance that has not run anything yet.
\<close>

definition K0 :: Kernel where
  "K0 = \<lparr>getBlockSharedExternMemSizeBytes = (\<lambda>v. 0), blockSharedMemAllocs = []\<rparr>"

definition K1 :: Kernel where
  "K1 = \<lparr>getBlockSharedExternMemSizeBytes = (\<lambda>v. 0), blockSharedMemAllocs = [(4, 1)]\<rparr>"

definition acc0 :: "WorkSize \<Rightarrow> unit AccOpenMp" where
  "acc0 w = \<lparr>m_WorkSize = w, m_v3uiGridBlockIdx = (0, 0, 0), m_vvuiSharedMem = [],
     m_vuiExternalSharedMem = [], kernelCalls = []\<rparr>"

definition unitWorkSize :: WorkSize where
  "unitWorkSize = \<lparr>GridBlocks = (1, 1, 1), BlockKernels = (1, 1, 1)\<rparr>"

definition twoBlocks :: WorkSize where
  "twoBlocks = \<lparr>GridBlocks = (2, 1, 1), BlockKernels = (1, 1, 1)\<rparr>"

text \<open>
  The accelerator \<open>acc0 twoBlocks\<close> after its first block has run the kernel \<open>K1\<close>, and
  after the executor has run \<open>K1\<close> over the whole of \<open>twoBlocks\<close>.
\<close>

definition afterFirstBlock :: "unit AccOpenMp" where
  "afterFirstBlock = \<lparr>m_WorkSize = twoBlocks, m_v3uiGridBlockIdx = (0, 0, 0),
     m_vvuiSharedMem = [[0]], m_vuiExternalSharedMem = [], kernelCalls = [((0, 0, 0), 0, ())]\<rparr>"

definition afterLaunch :: "unit AccOpenMp" where
  "afterLaunch = \<lparr>m_WorkSize = twoBlocks, m_v3uiGridBlockIdx = (1, 0, 0),
     m_vvuiSharedMem = [], m_vuiExternalSharedMem = [],
     kernelCalls = [((0, 0, 0), 0, ()), ((1, 0, 0), 0, ())]\<rparr>"

subsection \<open>The pitch of a memory view\<close>

text \<open>
  A view, as the two traits see it: the number of its dimensions (\<^verbatim>\<open>dim::Dim<TView>\<close>), its
  extents (\<^verbatim>\<open>extent::getExtent<i>(view)\<close>) and the size of its element type. The integer
  type of the results (\<^verbatim>\<open>UInt\<close> in the one header, \<^verbatim>\<open>idx::Idx<TView>\<close> in the other) is
  declared elsewhere; its width is the parameter \<open>'w\<close>, and products wrap at that width.
\<close>

type_synonym 'w View = "nat \<times> (nat \<Rightarrow> 'w word) \<times> 'w word"

definition Dim :: "'w View \<Rightarrow> nat" where
  "Dim view = fst view"

definition getExtent :: "'w View \<Rightarrow> nat \<Rightarrow> 'w word" where
  "getExtent view = fst (snd view)"

definition sizeofElem :: "'w View \<Rightarrow> 'w word" where
  "sizeofElem view = snd (snd view)"

text \<open>\<^verbatim>\<open>alpaka::traits::mem::GetPitchBytes<TuiIdx, TView>\<close> of \<^verbatim>\<open>traits/mem/View.hpp\<close>.\<close>

definition traits_mem_GetPitchBytes :: "nat \<Rightarrow> 'w::len View \<Rightarrow> 'w word" where
  "traits_mem_GetPitchBytes TuiIdx buf = getExtent buf TuiIdx * sizeofElem buf"

text \<open>
  \<^verbatim>\<open>alpaka::mem::view::traits::detail::GetPitchBytesDefault<TIdx, TView>\<close> of
  \<^verbatim>\<open>mem/view/Traits.hpp\<close>, with its three partial specialisations, and the trait
  \<^verbatim>\<open>GetPitchBytes\<close> that forwards to it (a view type may specialise the trait; these are
  the defaults). An index above the number of dimensions has no specialisation and does
  not instantiate: \<open>None\<close>. So does no index of a view without dimensions, where
  \<^verbatim>\<open>dim::Dim<TView>::value - 1\<close> wraps around and the specialisations overlap.
\<close>

function GetPitchBytesDefault :: "nat \<Rightarrow> 'w::len View \<Rightarrow> 'w word option" where
  "GetPitchBytesDefault TIdx view =
     (if Dim view = 0 then None
      else if TIdx < Dim view - 1
        then map_option (\<lambda>pitch. getExtent view TIdx * pitch) (GetPitchBytesDefault (TIdx + 1) view)
      else if TIdx = Dim view - 1
        then Some (getExtent view (Dim view - 1) * sizeofElem view)
      else if TIdx = Dim view
        then Some (sizeofElem view)
      else None)"
  by pat_completeness auto
termination
  by (relation "measure (\<lambda>(TIdx, view). Dim view - TIdx)") auto

definition mem_view_GetPitchBytes :: "nat \<Rightarrow> 'w::len View \<Rightarrow> 'w word option" where
  "mem_view_GetPitchBytes TIdx view = GetPitchBytesDefault TIdx view"

text \<open>A view of two dimensions with the extents \<open>(2, 3)\<close> and elements of four bytes.\<close>

definition view23 :: "64 View" where
  "view23 = (2, (\<lambda>i. if i = 0 then 2 else 3), 4)"

section \<open>Properties\<close>

subsection \<open>Vectors and 32-bit arithmetic\<close>

lemma idx_tuple [simp]:
  "idx0 (a, b, c) = a" "idx1 (a, b, c) = b" "idx2 (a, b, c) = c"
  by (simp_all add: idx0_def idx1_def idx2_def)

lemma valid_coord_tuple:
  "valid_coord (x, y, z) g \<longleftrightarrow> x < idx0 g \<and> y < idx1 g \<and> z < idx2 g"
  by (simp add: valid_coord_def)

lemma unat_u32_less: "unat (n::u32) < 4294967296"
proof -
  have "unat n < 2 ^ LENGTH(32)"
    by (rule unsigned_less)
  then show ?thesis by simp
qed

lemma unat_of_nat_u32:
  assumes "i \<le> unat (n::u32)"
  shows "unat (of_nat i :: u32) = i"
  using assms by (rule le_unat_uoi)

lemma of_nat_u32_nonzero:
  assumes "0 < i" and "i < unat (n::u32)"
  shows "(of_nat i :: u32) \<noteq> 0"
proof -
  have "unat (of_nat i :: u32) = i"
    using assms(2) by (intro unat_of_nat_u32 [of i n]) simp
  then show ?thesis
    using assms(1) by auto
qed

subsection \<open>The index rule on natural numbers\<close>

text \<open>
  On natural numbers the three expressions of the code are the three components of the
  rule, whatever the extent; the rule and the linearization are inverse to each other on
  the coordinates that are valid for the extent.
\<close>

lemma code_rule_nat:
  fixes t e0 e1 :: nat
  shows "(t mod (e1 * e0)) mod e0 = t mod e0"
    and "(t mod (e1 * e0)) div e0 = (t div e0) mod e1"
    and "t div (e1 * e0) = t div (e0 * e1)"
proof -
  show "(t mod (e1 * e0)) mod e0 = t mod e0"
    by (simp add: mod_mod_cancel)
  show "(t mod (e1 * e0)) div e0 = (t div e0) mod e1"
  proof (cases "e0 = 0")
    case True
    then show ?thesis by simp
  next
    case False
    have "t mod (e0 * e1) = e0 * (t div e0 mod e1) + t mod e0"
      by (rule mod_mult2_eq)
    then have "(t mod (e0 * e1)) div e0 = (e0 * (t div e0 mod e1) + t mod e0) div e0"
      by simp
    also have "\<dots> = t div e0 mod e1"
      using False by simp
    finally show ?thesis by (simp add: mult.commute)
  qed
  show "t div (e1 * e0) = t div (e0 * e1)"
    by (simp add: mult.commute)
qed

lemma delinearize_linearize:
  assumes "c0 < e0" and "c1 < e1"
  shows "delinearize (e0, e1, e2) (linearize (c0, c1, c2) (e0, e1, e2)) = (c0, c1, c2)"
proof -
  have t: "linearize (c0, c1, c2) (e0, e1, e2) = c0 + e0 * (c1 + e1 * c2)"
    by (simp add: linearize_def algebra_simps)
  have x: "(c0 + e0 * (c1 + e1 * c2)) mod e0 = c0"
    using assms by simp
  have d: "(c0 + e0 * (c1 + e1 * c2)) div e0 = c1 + e1 * c2"
    using assms by simp
  have y: "(c1 + e1 * c2) mod e1 = c1"
    using assms by simp
  have "(c0 + e0 * (c1 + e1 * c2)) div (e0 * e1) = (c1 + e1 * c2) div e1"
    by (simp only: div_mult2_eq d)
  also have "\<dots> = c2"
    using assms by simp
  finally have z: "(c0 + e0 * (c1 + e1 * c2)) div (e0 * e1) = c2" .
  show ?thesis
    unfolding t delinearize_def prod.case d x y z ..
qed

lemma linearize_less:
  assumes "c0 < e0" and "c1 < e1" and "c2 < e2"
  shows "linearize (c0, c1, c2) (e0, e1, e2) < e0 * e1 * (e2::nat)"
proof -
  have "c0 + e0 * (c1 + e1 * c2) < e0 * (Suc (c1 + e1 * c2))"
    using assms by simp
  also have "Suc (c1 + e1 * c2) \<le> e1 * Suc c2"
    using assms by simp
  then have "e0 * Suc (c1 + e1 * c2) \<le> e0 * (e1 * Suc c2)"
    by (rule mult_le_mono2)
  also have "e0 * (e1 * Suc c2) \<le> e0 * (e1 * e2)"
    using assms by (intro mult_le_mono2) simp
  finally show ?thesis
    by (simp add: linearize_def algebra_simps)
qed

lemma linearize_delinearize:
  "linearize (delinearize (e0, e1, e2) t) (e0, e1, e2) = t"
proof -
  have "t mod e0 + (t div e0 mod e1) * e0 + (t div (e0 * e1)) * e0 * e1
        = t mod e0 + e0 * (t div e0 mod e1 + e1 * (t div e0 div e1))"
    by (simp only: div_mult2_eq algebra_simps)
  also have "\<dots> = t mod e0 + e0 * (t div e0)"
    by (simp only: mod_mult_div_eq)
  also have "\<dots> = t"
    by (simp only: mod_mult_div_eq)
  finally show ?thesis
    by (simp only: linearize_def delinearize_def prod.case)
qed

lemma delinearize_valid:
  fixes t e0 e1 e2 :: nat
  assumes "t < e0 * e1 * e2" and "0 < e0" and "0 < e1"
  shows "t mod e0 < e0" and "t div e0 mod e1 < e1" and "t div (e0 * e1) < e2"
proof -
  show "t mod e0 < e0" using assms(2) by simp
  show "t div e0 mod e1 < e1" using assms(3) by simp
  have "t < e2 * (e0 * e1)"
    using assms(1) by (simp add: mult.commute)
  then show "t div (e0 * e1) < e2"
    by (rule less_mult_imp_div_less)
qed

subsection \<open>The block-thread index of the OpenMP accelerator\<close>

text \<open>
  Where the plane \<open>e0 * e1\<close> fits 32 bits, the words that \<^verbatim>\<open>getIdxBlockKernel\<close> computes
  are the natural numbers of the rule. For a block extent without a zero axis whose
  thread count is at most the maximum, the thread numbers below the count and the valid
  coordinates correspond one to one.
\<close>

lemma getIdxBlockKernel_unat:
  assumes "idx0 (BlockKernels w) \<noteq> 0" and "idx1 (BlockKernels w) \<noteq> 0"
    and "unat (idx0 (BlockKernels w)) * unat (idx1 (BlockKernels w)) < 2 ^ 32"
  shows "map_sum id uvec (getIdxBlockKernel w t)
         = Inr (delinearize (uvec (BlockKernels w)) (unat t))"
proof -
  let ?e0 = "idx0 (BlockKernels w)" and ?e1 = "idx1 (BlockKernels w)"
  have pl: "unat (?e1 * ?e0) = unat ?e1 * unat ?e0"
    using assms(3) by (simp add: unat_mult_lem [THEN iffD1] mult.commute)
  have nz: "?e1 * ?e0 \<noteq> 0"
    using assms pl by (metis mult_eq_0_iff unat_eq_0)
  show ?thesis
    using nz assms(1)
    by (simp add: getIdxBlockKernel_def Let_def uvec_def delinearize_def
        unat_mod unat_div pl code_rule_nat del: mod_mod_trivial)
qed

lemma block_plane_fits:
  assumes "getSizeBlockKernelsLinear ws \<le> unat (m::u32)" and "idx2 (BlockKernels ws) \<noteq> 0"
  shows "unat (idx0 (BlockKernels ws)) * unat (idx1 (BlockKernels ws)) < 2 ^ 32"
proof -
  have "0 < unat (idx2 (BlockKernels ws))"
    using assms(2) by (simp add: unat_gt_0)
  then have "unat (idx0 (BlockKernels ws)) * unat (idx1 (BlockKernels ws))
      \<le> getSizeBlockKernelsLinear ws"
    by (simp add: getSizeBlockKernelsLinear_def)
  also have "\<dots> < 2 ^ 32"
    using assms(1) unat_u32_less [of m] by simp
  finally show ?thesis .
qed

lemma getIdxBlockKernel_valid:
  assumes fits: "getSizeBlockKernelsLinear ws \<le> unat (m::u32)"
    and nz: "idx0 (BlockKernels ws) \<noteq> 0" "idx1 (BlockKernels ws) \<noteq> 0" "idx2 (BlockKernels ws) \<noteq> 0"
    and t: "unat t < getSizeBlockKernelsLinear ws"
  shows "\<exists>c. getIdxBlockKernel ws t = Inr c \<and> valid_coord c (BlockKernels ws)
      \<and> uvec c = delinearize (uvec (BlockKernels ws)) (unat t)"
proof -
  let ?e0 = "unat (idx0 (BlockKernels ws))" and ?e1 = "unat (idx1 (BlockKernels ws))"
    and ?e2 = "unat (idx2 (BlockKernels ws))"
  have r: "map_sum id uvec (getIdxBlockKernel ws t) = Inr (delinearize (uvec (BlockKernels ws)) (unat t))"
    using nz(1,2) block_plane_fits [OF fits nz(3)] by (rule getIdxBlockKernel_unat)
  then obtain c where c: "getIdxBlockKernel ws t = Inr c"
      "uvec c = delinearize (uvec (BlockKernels ws)) (unat t)"
    by (cases "getIdxBlockKernel ws t") auto
  have pos: "0 < ?e0" "0 < ?e1"
    using nz by (simp_all add: unat_gt_0)
  have "unat t < ?e0 * ?e1 * ?e2"
    using t by (simp add: getSizeBlockKernelsLinear_def)
  from delinearize_valid [OF this pos] c(2)
  have "valid_coord c (BlockKernels ws)"
    by (simp add: valid_coord_def uvec_def delinearize_def word_less_nat_alt)
  then show ?thesis
    using c by blast
qed

lemma getIdxBlockKernel_inj:
  assumes fits: "getSizeBlockKernelsLinear ws \<le> unat (m::u32)"
    and nz: "idx0 (BlockKernels ws) \<noteq> 0" "idx1 (BlockKernels ws) \<noteq> 0" "idx2 (BlockKernels ws) \<noteq> 0"
    and eq: "getIdxBlockKernel ws t = getIdxBlockKernel ws t'"
  shows "t = t'"
proof -
  have "map_sum id uvec (getIdxBlockKernel ws t) = Inr (delinearize (uvec (BlockKernels ws)) (unat t))"
    and "map_sum id uvec (getIdxBlockKernel ws t') = Inr (delinearize (uvec (BlockKernels ws)) (unat t'))"
    using nz(1,2) block_plane_fits [OF fits nz(3)] by (rule getIdxBlockKernel_unat)+
  then have "delinearize (uvec (BlockKernels ws)) (unat t) = delinearize (uvec (BlockKernels ws)) (unat t')"
    using eq by simp
  then have "linearize (delinearize (uvec (BlockKernels ws)) (unat t)) (uvec (BlockKernels ws))
      = linearize (delinearize (uvec (BlockKernels ws)) (unat t')) (uvec (BlockKernels ws))"
    by simp
  then have "unat t = unat t'"
    by (simp only: uvec_def linearize_delinearize)
  then show ?thesis
    by (simp add: word_unat_eq_iff)
qed

lemma getIdxBlockKernel_linearize:
  assumes nz: "idx0 (BlockKernels ws) \<noteq> 0" "idx1 (BlockKernels ws) \<noteq> 0"
    and valid: "valid_coord c (BlockKernels ws)"
    and plane: "unat (idx0 (BlockKernels ws)) * unat (idx1 (BlockKernels ws)) < 2 ^ 32"
    and fits: "getSizeBlockKernelsLinear ws \<le> 2 ^ 32"
  shows "getIdxBlockKernel ws (of_nat (linearize (uvec c) (uvec (BlockKernels ws)))) = Inr c"
    and "linearize (uvec c) (uvec (BlockKernels ws)) < getSizeBlockKernelsLinear ws"
proof -
  let ?t = "linearize (uvec c) (uvec (BlockKernels ws))"
  have v: "unat (idx0 c) < unat (idx0 (BlockKernels ws))"
      "unat (idx1 c) < unat (idx1 (BlockKernels ws))"
      "unat (idx2 c) < unat (idx2 (BlockKernels ws))"
    using valid by (simp_all add: valid_coord_def word_less_nat_alt)
  show less: "?t < getSizeBlockKernelsLinear ws"
    unfolding uvec_def getSizeBlockKernelsLinear_def using v by (rule linearize_less)
  then have "?t < 2 ^ 32"
    using fits by simp
  then have ut: "unat (of_nat ?t :: u32) = ?t"
    by (simp add: unat_of_nat)
  have "map_sum id uvec (getIdxBlockKernel ws (of_nat ?t))
        = Inr (delinearize (uvec (BlockKernels ws)) (unat (of_nat ?t :: u32)))"
    using nz plane by (rule getIdxBlockKernel_unat)
  also have "\<dots> = Inr (uvec c)"
    unfolding ut using v by (simp add: uvec_def delinearize_linearize)
  finally obtain c' where r: "getIdxBlockKernel ws (of_nat ?t) = Inr c'" and "uvec c' = uvec c"
    by (cases "getIdxBlockKernel ws (of_nat ?t)") auto
  then have "c' = c"
    by (cases c, cases c') (simp add: uvec_def word_unat_eq_iff)
  then show "getIdxBlockKernel ws (of_nat ?t) = Inr c"
    using r by simp
qed

subsection \<open>Teams, blocks and the three loops\<close>

text \<open>
  A team of \<open>n\<close> threads has the thread numbers below \<open>n\<close>, each once, and exactly one
  thread whose number is 0: the one append of a collective allocation.
\<close>

lemma team_nonzero:
  assumes "n \<noteq> 0"
  shows "team n = 0 # map of_nat [1..<unat n]"
proof -
  have "0 < unat n"
    using assms by (simp add: unat_gt_0)
  then have "[0..<unat n] = 0 # [1..<unat n]"
    by (simp add: upt_conv_Cons)
  then show ?thesis
    by (simp add: team_def)
qed

lemma length_team: "length (team n) = unat n"
  by (simp add: team_def)

lemma set_team: "set (team n) = {t. t < n}"
proof
  show "set (team n) \<subseteq> {t. t < n}"
  proof
    fix t assume "t \<in> set (team n)"
    then obtain i where i: "i < unat n" "t = of_nat i"
      by (auto simp: team_def)
    from i(1) have "i \<le> unat n"
      by simp
    then have "unat (of_nat i :: u32) = i"
      by (rule unat_of_nat_u32)
    then have "unat t = i"
      by (simp only: i(2))
    then show "t \<in> {t. t < n}"
      using i by (simp add: word_less_nat_alt)
  qed
  show "{t. t < n} \<subseteq> set (team n)"
  proof
    fix t assume "t \<in> {t. t < n}"
    then have "unat t < unat n"
      by (simp add: word_less_nat_alt)
    then have "unat t \<in> set [0..<unat n]"
      by simp
    moreover have "t = of_nat (unat t)"
      by simp
    ultimately have "t \<in> of_nat ` set [0..<unat n]"
      by (rule rev_image_eqI)
    then show "t \<in> set (team n)"
      by (simp only: team_def set_map)
  qed
qed

lemma distinct_team: "distinct (team n)"
proof -
  have "inj_on (of_nat :: nat \<Rightarrow> u32) (set [0..<unat n])"
  proof (rule inj_onI)
    fix i j assume "i \<in> set [0..<unat n]" "j \<in> set [0..<unat n]"
      and eq: "(of_nat i :: u32) = of_nat j"
    then have le: "i \<le> unat n" "j \<le> unat n"
      by simp_all
    have "i = unat (of_nat i :: u32)"
      by (rule unat_of_nat_u32 [OF le(1), symmetric])
    also have "\<dots> = unat (of_nat j :: u32)"
      by (simp only: eq)
    also have "\<dots> = j"
      by (rule unat_of_nat_u32 [OF le(2)])
    finally show "i = j" .
  qed
  then show ?thesis
    by (simp add: team_def distinct_map)
qed

lemma fold_skip:
  assumes "\<And>t. t \<in> set ts \<Longrightarrow> t \<noteq> (0::u32)"
  shows "fold (\<lambda>t s. if t = 0 then f s else s) ts s = s"
  using assms by (induction ts arbitrary: s) auto

lemma fold_thread0:
  assumes "n \<noteq> 0"
  shows "fold (\<lambda>t s. if t = 0 then f s else s) (team n) s = f s"
proof -
  have "\<And>t. t \<in> set (map of_nat [1..<unat n]) \<Longrightarrow> t \<noteq> (0::u32)"
    by (auto simp: of_nat_u32_nonzero)
  then have "fold (\<lambda>t s. if t = 0 then f s else s) (map of_nat [1..<unat n] :: u32 list) (f s) = f s"
    by (rule fold_skip)
  then show ?thesis
    by (simp add: team_nonzero [OF assms])
qed

lemma allocBlockSharedMem_body_state:
  assumes "n \<noteq> 0"
  shows "fst (allocBlockSharedMem_body sizeofT UiNumElements n s) = emplace_back UiNumElements s"
  by (simp add: allocBlockSharedMem_body_def Let_def syncBlockKernels_def fold_thread0 [OF assms])

lemma runKernelBody_state:
  assumes "n \<noteq> 0"
  shows "runKernelBody K n s
         = s\<lparr>m_vvuiSharedMem := m_vvuiSharedMem s
               @ map (\<lambda>(sizeofT, UiNumElements). replicate UiNumElements 0) (blockSharedMemAllocs K)\<rparr>"
proof -
  have "fold (\<lambda>(sizeofT, UiNumElements) s. fst (allocBlockSharedMem_body sizeofT UiNumElements n s)) as s
        = s\<lparr>m_vvuiSharedMem := m_vvuiSharedMem s
               @ map (\<lambda>(sizeofT, UiNumElements). replicate UiNumElements 0) as\<rparr>" for as
    by (induction as arbitrary: s)
      (auto simp: allocBlockSharedMem_body_state [OF assms] emplace_back_def)
  then show ?thesis
    by (simp add: runKernelBody_def)
qed

lemma executeBlock_Returned:
  assumes "(of_nat (getSizeBlockKernelsLinear (m_WorkSize s)) :: u32) = n" and "n \<noteq> 0"
  shows "executeBlock K args s
         = Returned (s\<lparr>kernelCalls := kernelCalls s @ blockCalls args n (m_v3uiGridBlockIdx s),
                       m_vvuiSharedMem := m_vvuiSharedMem s
                         @ map (\<lambda>(sizeofT, UiNumElements). replicate UiNumElements 0)
                             (blockSharedMemAllocs K)\<rparr>)"
  using assms
  by (simp add: executeBlock_def Let_def runKernelBody_state syncBlockKernels_def getIdxGridBlock_def)

text \<open>
  A loop whose body returns and appends to the calls and to the segments appends the
  concatenation of what its iterations append. The three loops of the executor follow,
  innermost first.
\<close>

lemma iterate_acc:
  assumes step: "\<And>b s. b \<in> set bs \<Longrightarrow> I s \<Longrightarrow>
      \<exists>s'. body (of_nat b) s = Returned s' \<and> I s'
        \<and> kernelCalls s' = kernelCalls s @ F b
        \<and> m_vvuiSharedMem s' = m_vvuiSharedMem s @ G b"
    and "I s"
  shows "\<exists>s'. iterate body bs s = Returned s' \<and> I s'
        \<and> kernelCalls s' = kernelCalls s @ concat (map F bs)
        \<and> m_vvuiSharedMem s' = m_vvuiSharedMem s @ concat (map G bs)"
  using assms
proof (induction bs arbitrary: s)
  case Nil
  then show ?case by simp
next
  case (Cons b bs)
  from Cons.prems(1) [of b s] Cons.prems(2)
  obtain s1 where s1: "body (of_nat b) s = Returned s1" "I s1"
      "kernelCalls s1 = kernelCalls s @ F b" "m_vvuiSharedMem s1 = m_vvuiSharedMem s @ G b"
    by auto
  have "\<exists>s'. iterate body bs s1 = Returned s' \<and> I s'
        \<and> kernelCalls s' = kernelCalls s1 @ concat (map F bs)
        \<and> m_vvuiSharedMem s' = m_vvuiSharedMem s1 @ concat (map G bs)"
    by (rule Cons.IH) (use Cons.prems(1) s1(2) in auto)
  then show ?case
    using s1 by auto
qed

lemma loop_bx_acc:
  assumes n: "(of_nat (getSizeBlockKernelsLinear ws) :: u32) = n" "n \<noteq> 0"
    and s: "m_WorkSize s = ws"
  shows "\<exists>s'. loop_bx K args s = Returned s'
      \<and> m_WorkSize s' = ws
      \<and> idx1 (m_v3uiGridBlockIdx s') = idx1 (m_v3uiGridBlockIdx s)
      \<and> idx2 (m_v3uiGridBlockIdx s') = idx2 (m_v3uiGridBlockIdx s)
      \<and> m_vuiExternalSharedMem s' = m_vuiExternalSharedMem s
      \<and> kernelCalls s' = kernelCalls s
          @ concat (map (\<lambda>bx. blockCalls args n
               (of_nat bx, idx1 (m_v3uiGridBlockIdx s), idx2 (m_v3uiGridBlockIdx s)))
             [0..<unat (idx0 (GridBlocks ws))])
      \<and> m_vvuiSharedMem s' = m_vvuiSharedMem s
          @ concat (map (\<lambda>bx. segs K) [0..<unat (idx0 (GridBlocks ws))])"
proof -
  let ?y = "idx1 (m_v3uiGridBlockIdx s)" and ?z = "idx2 (m_v3uiGridBlockIdx s)"
  let ?e = "m_vuiExternalSharedMem s"
  let ?I = "\<lambda>s'. m_WorkSize s' = ws \<and> idx1 (m_v3uiGridBlockIdx s') = ?y
      \<and> idx2 (m_v3uiGridBlockIdx s') = ?z \<and> m_vuiExternalSharedMem s' = ?e"
  have "\<exists>s'. iterate (\<lambda>bx s. executeBlock K args
                 (s\<lparr>m_v3uiGridBlockIdx := set_idx0 bx (m_v3uiGridBlockIdx s)\<rparr>))
          [0..<unat (idx0 (GridBlocks ws))] s = Returned s' \<and> ?I s'
        \<and> kernelCalls s' = kernelCalls s
            @ concat (map (\<lambda>bx. blockCalls args n (of_nat bx, ?y, ?z)) [0..<unat (idx0 (GridBlocks ws))])
        \<and> m_vvuiSharedMem s' = m_vvuiSharedMem s
            @ concat (map (\<lambda>bx. segs K) [0..<unat (idx0 (GridBlocks ws))])"
  proof (rule iterate_acc [where I = ?I])
    show "?I s" using s by simp
  next
    fix b and s1 :: "'a AccOpenMp"
    assume I: "?I s1"
    let ?s2 = "s1\<lparr>m_v3uiGridBlockIdx := set_idx0 (of_nat b) (m_v3uiGridBlockIdx s1)\<rparr>"
    have "(of_nat (getSizeBlockKernelsLinear (m_WorkSize ?s2)) :: u32) = n"
      using I n(1) by simp
    from executeBlock_Returned [OF this n(2), of K args]
    show "\<exists>s'. executeBlock K args ?s2 = Returned s' \<and> ?I s'
        \<and> kernelCalls s' = kernelCalls s1 @ blockCalls args n (of_nat b, ?y, ?z)
        \<and> m_vvuiSharedMem s' = m_vvuiSharedMem s1 @ segs K"
      using I by (simp add: set_idx0_def segs_def)
  qed
  then show ?thesis
    using s by (simp add: loop_bx_def for_u32_def)
qed

lemma loop_by_acc:
  assumes n: "(of_nat (getSizeBlockKernelsLinear ws) :: u32) = n" "n \<noteq> 0"
    and s: "m_WorkSize s = ws"
  shows "\<exists>s'. loop_by K args s = Returned s'
      \<and> m_WorkSize s' = ws
      \<and> idx2 (m_v3uiGridBlockIdx s') = idx2 (m_v3uiGridBlockIdx s)
      \<and> m_vuiExternalSharedMem s' = m_vuiExternalSharedMem s
      \<and> kernelCalls s' = kernelCalls s
          @ planeCalls args n (idx0 (GridBlocks ws)) (idx1 (GridBlocks ws)) (idx2 (m_v3uiGridBlockIdx s))
      \<and> m_vvuiSharedMem s' = m_vvuiSharedMem s
          @ concat (map (\<lambda>by. concat (map (\<lambda>bx. segs K) [0..<unat (idx0 (GridBlocks ws))]))
              [0..<unat (idx1 (GridBlocks ws))])"
proof -
  let ?z = "idx2 (m_v3uiGridBlockIdx s)"
  let ?e = "m_vuiExternalSharedMem s"
  let ?g0 = "idx0 (GridBlocks ws)"
  let ?I = "\<lambda>s'. m_WorkSize s' = ws \<and> idx2 (m_v3uiGridBlockIdx s') = ?z
      \<and> m_vuiExternalSharedMem s' = ?e"
  have "\<exists>s'. iterate (\<lambda>by s. loop_bx K args
                 (s\<lparr>m_v3uiGridBlockIdx := set_idx1 by (m_v3uiGridBlockIdx s)\<rparr>))
          [0..<unat (idx1 (GridBlocks ws))] s = Returned s' \<and> ?I s'
        \<and> kernelCalls s' = kernelCalls s
            @ concat (map (\<lambda>by. rowCalls args n ?g0 (of_nat by) ?z) [0..<unat (idx1 (GridBlocks ws))])
        \<and> m_vvuiSharedMem s' = m_vvuiSharedMem s
            @ concat (map (\<lambda>by. concat (map (\<lambda>bx. segs K) [0..<unat ?g0]))
                [0..<unat (idx1 (GridBlocks ws))])"
  proof (rule iterate_acc [where I = ?I])
    show "?I s" using s by simp
  next
    fix b and s1 :: "'a AccOpenMp"
    assume I: "?I s1"
    let ?s2 = "s1\<lparr>m_v3uiGridBlockIdx := set_idx1 (of_nat b) (m_v3uiGridBlockIdx s1)\<rparr>"
    have "m_WorkSize ?s2 = ws"
      using I by simp
    from loop_bx_acc [OF n this, of K args]
    show "\<exists>s'. loop_bx K args ?s2 = Returned s' \<and> ?I s'
        \<and> kernelCalls s' = kernelCalls s1 @ rowCalls args n ?g0 (of_nat b) ?z
        \<and> m_vvuiSharedMem s' = m_vvuiSharedMem s1 @ concat (map (\<lambda>bx. segs K) [0..<unat ?g0])"
      using I by (auto simp: set_idx1_def rowCalls_def)
  qed
  then show ?thesis
    using s by (simp add: loop_by_def for_u32_def planeCalls_def)
qed

lemma loop_bz_acc:
  assumes n: "(of_nat (getSizeBlockKernelsLinear ws) :: u32) = n" "n \<noteq> 0"
    and s: "m_WorkSize s = ws"
  shows "\<exists>s'. loop_bz K args s = Returned s'
      \<and> m_WorkSize s' = ws
      \<and> m_vuiExternalSharedMem s' = m_vuiExternalSharedMem s
      \<and> kernelCalls s' = kernelCalls s @ gridCalls args n (GridBlocks ws)
      \<and> m_vvuiSharedMem s' = m_vvuiSharedMem s
          @ concat (map (\<lambda>bz. concat (map (\<lambda>by. concat (map (\<lambda>bx. segs K)
              [0..<unat (idx0 (GridBlocks ws))])) [0..<unat (idx1 (GridBlocks ws))]))
              [0..<unat (idx2 (GridBlocks ws))])"
proof -
  let ?e = "m_vuiExternalSharedMem s"
  let ?g0 = "idx0 (GridBlocks ws)" and ?g1 = "idx1 (GridBlocks ws)"
  let ?I = "\<lambda>s'. m_WorkSize s' = ws \<and> m_vuiExternalSharedMem s' = ?e"
  have "\<exists>s'. iterate (\<lambda>bz s. loop_by K args
                 (s\<lparr>m_v3uiGridBlockIdx := set_idx2 bz (m_v3uiGridBlockIdx s)\<rparr>))
          [0..<unat (idx2 (GridBlocks ws))] s = Returned s' \<and> ?I s'
        \<and> kernelCalls s' = kernelCalls s
            @ concat (map (\<lambda>bz. planeCalls args n ?g0 ?g1 (of_nat bz)) [0..<unat (idx2 (GridBlocks ws))])
        \<and> m_vvuiSharedMem s' = m_vvuiSharedMem s
            @ concat (map (\<lambda>bz. concat (map (\<lambda>by. concat (map (\<lambda>bx. segs K) [0..<unat ?g0]))
                [0..<unat ?g1])) [0..<unat (idx2 (GridBlocks ws))])"
  proof (rule iterate_acc [where I = ?I])
    show "?I s" using s by simp
  next
    fix b and s1 :: "'a AccOpenMp"
    assume I: "?I s1"
    let ?s2 = "s1\<lparr>m_v3uiGridBlockIdx := set_idx2 (of_nat b) (m_v3uiGridBlockIdx s1)\<rparr>"
    have "m_WorkSize ?s2 = ws"
      using I by simp
    from loop_by_acc [OF n this, of K args]
    show "\<exists>s'. loop_by K args ?s2 = Returned s' \<and> ?I s'
        \<and> kernelCalls s' = kernelCalls s1 @ planeCalls args n ?g0 ?g1 (of_nat b)
        \<and> m_vvuiSharedMem s' = m_vvuiSharedMem s1
            @ concat (map (\<lambda>by. concat (map (\<lambda>bx. segs K) [0..<unat ?g0])) [0..<unat ?g1])"
      using I by (auto simp: set_idx2_def)
  qed
  then show ?thesis
    using s by (simp add: loop_bz_def for_u32_def gridCalls_def)
qed

text \<open>
  The calls of a grid are the image of the product of the four ranges; what they observe
  is one entry for every pair of a block coordinate and a thread coordinate.
\<close>

lemma gridCalls_product:
  "gridCalls args n g
   = map (\<lambda>(bz, by, bx, t). ((bx, by, bz), t, args))
       (List.product (team (idx2 g)) (List.product (team (idx1 g)) (List.product (team (idx0 g)) (team n))))"
  by (simp add: gridCalls_def planeCalls_def rowCalls_def blockCalls_def team_def
      product_concat_map map_concat o_def)

lemma gridCalls_length:
  "length (gridCalls args n g) = unat (idx0 g) * unat (idx1 g) * unat (idx2 g) * unat n"
  by (simp add: gridCalls_product length_team)

lemma gridCalls_observe_set:
  assumes fits: "getSizeBlockKernelsLinear ws \<le> unat (m::u32)"
    and nz: "idx0 (BlockKernels ws) \<noteq> 0" "idx1 (BlockKernels ws) \<noteq> 0" "idx2 (BlockKernels ws) \<noteq> 0"
    and n: "unat n = getSizeBlockKernelsLinear ws"
  shows "set (map (observe ws) (gridCalls args n g))
    = {(b, Inr c, args) | b c. valid_coord b g \<and> valid_coord c (BlockKernels ws)}"
    (is "?L = ?R")
proof
  show "?L \<subseteq> ?R"
  proof
    fix e assume "e \<in> ?L"
    then obtain bx "by" bz t where e: "e = ((bx, by, bz), getIdxBlockKernel ws t, args)"
      and b: "bx < idx0 g" "by < idx1 g" "bz < idx2 g" and t: "t < n"
      by (auto simp: gridCalls_product observe_def set_team)
    from t have "unat t < getSizeBlockKernelsLinear ws"
      by (simp add: word_less_nat_alt n)
    from getIdxBlockKernel_valid [OF fits nz this]
    obtain c where "getIdxBlockKernel ws t = Inr c" "valid_coord c (BlockKernels ws)"
      by blast
    moreover have "valid_coord (bx, by, bz) g"
      using b by (simp add: valid_coord_tuple)
    ultimately show "e \<in> ?R"
      using e by blast
  qed
  show "?R \<subseteq> ?L"
  proof
    fix e assume "e \<in> ?R"
    then obtain b c where e: "e = (b, Inr c, args)"
      and b: "valid_coord b g" and c: "valid_coord c (BlockKernels ws)"
      by blast
    let ?t = "of_nat (linearize (uvec c) (uvec (BlockKernels ws))) :: u32"
    have le: "getSizeBlockKernelsLinear ws \<le> 2 ^ 32"
      using fits unat_u32_less [of m] by simp
    from getIdxBlockKernel_linearize [OF nz(1,2) c block_plane_fits [OF fits nz(3)] le]
    have r: "getIdxBlockKernel ws ?t = Inr c"
      and l: "linearize (uvec c) (uvec (BlockKernels ws)) < getSizeBlockKernelsLinear ws"
      by simp_all
    from l have "linearize (uvec c) (uvec (BlockKernels ws)) \<le> unat n"
      by (simp add: n)
    then have "unat ?t = linearize (uvec c) (uvec (BlockKernels ws))"
      by (rule unat_of_nat_u32)
    then have "?t < n"
      using l by (simp add: word_less_nat_alt n)
    moreover obtain bx "by" bz where bb: "b = (bx, by, bz)"
      by (cases b)
    ultimately have "(bz, by, bx, ?t) \<in> {t. t < idx2 g} \<times> {t. t < idx1 g} \<times> {t. t < idx0 g} \<times> {t. t < n}"
      using b by (simp add: valid_coord_tuple)
    then have "(\<lambda>(bz, by, bx, t). ((bx, by, bz), t, args)) (bz, by, bx, ?t)
        \<in> (\<lambda>(bz, by, bx, t). ((bx, by, bz), t, args))
            ` ({t. t < idx2 g} \<times> {t. t < idx1 g} \<times> {t. t < idx0 g} \<times> {t. t < n})"
      by (rule imageI)
    then have "(b, ?t, args) \<in> set (gridCalls args n g)"
      by (simp add: gridCalls_product set_team bb)
    then have "observe ws (b, ?t, args) \<in> ?L"
      by simp
    then show "e \<in> ?L"
      by (simp only: e observe_def prod.case r)
  qed
qed

lemma gridCalls_observe_distinct:
  assumes fits: "getSizeBlockKernelsLinear ws \<le> unat (m::u32)"
    and nz: "idx0 (BlockKernels ws) \<noteq> 0" "idx1 (BlockKernels ws) \<noteq> 0" "idx2 (BlockKernels ws) \<noteq> 0"
  shows "distinct (map (observe ws) (gridCalls args n g))"
proof -
  let ?L = "List.product (team (idx2 g)) (List.product (team (idx1 g))
      (List.product (team (idx0 g)) (team n)))"
  let ?h = "\<lambda>(bz, by, bx, t). ((bx, by, bz), t, args)"
  have d: "distinct ?L"
    by (intro distinct_product distinct_team)
  have "inj (\<lambda>p. observe ws (?h p))"
  proof (rule injI)
    fix p q :: "u32 \<times> u32 \<times> u32 \<times> u32"
    assume eq: "observe ws (?h p) = observe ws (?h q)"
    obtain bz "by" bx t where p: "p = (bz, by, bx, t)" by (cases p)
    obtain bz' by' bx' t' where q: "q = (bz', by', bx', t')" by (cases q)
    from eq have "bz = bz'" "by = by'" "bx = bx'" "getIdxBlockKernel ws t = getIdxBlockKernel ws t'"
      by (simp_all add: p q observe_def)
    moreover from this(4) have "t = t'"
      by (rule getIdxBlockKernel_inj [OF fits nz])
    ultimately show "p = q"
      by (simp add: p q)
  qed
  then have "inj_on (\<lambda>p. observe ws (?h p)) (set ?L)"
    by (rule inj_on_subset) simp
  then have "distinct (map (\<lambda>p. observe ws (?h p)) ?L)"
    using d by (simp add: distinct_map)
  then show ?thesis
    by (simp add: gridCalls_product o_def)
qed

text \<open>
  A grid with a zero axis: the loops return without having run a block. And no loop
  throws, since no block does.
\<close>

lemma concat_map_Nil: "concat (map (\<lambda>b. []) bs) = []"
  by (induction bs) simp_all

lemma iterate_frame:
  assumes step: "\<And>b s. b \<in> set bs \<Longrightarrow> I s \<Longrightarrow>
      \<exists>s'. body (of_nat b) s = Returned s' \<and> I s'
        \<and> kernelCalls s' = kernelCalls s \<and> m_vvuiSharedMem s' = m_vvuiSharedMem s"
    and "I s"
  shows "\<exists>s'. iterate body bs s = Returned s' \<and> I s'
        \<and> kernelCalls s' = kernelCalls s \<and> m_vvuiSharedMem s' = m_vvuiSharedMem s"
  using iterate_acc [of bs I body "\<lambda>b. []" "\<lambda>b. []" s] assms
  by (simp add: concat_map_Nil)

lemma loop_bx_empty:
  assumes "idx0 (GridBlocks (m_WorkSize s)) = 0"
  shows "loop_bx K args s = Returned s"
  using assms by (simp add: loop_bx_def for_u32_def)

lemma loop_by_empty:
  assumes "idx0 (GridBlocks (m_WorkSize s)) = 0 \<or> idx1 (GridBlocks (m_WorkSize s)) = 0"
  shows "\<exists>s'. loop_by K args s = Returned s' \<and> m_WorkSize s' = m_WorkSize s
      \<and> kernelCalls s' = kernelCalls s \<and> m_vvuiSharedMem s' = m_vvuiSharedMem s"
proof (cases "idx1 (GridBlocks (m_WorkSize s)) = 0")
  case True
  then show ?thesis
    by (simp add: loop_by_def for_u32_def)
next
  case False
  with assms have g0: "idx0 (GridBlocks (m_WorkSize s)) = 0"
    by simp
  let ?I = "\<lambda>s'. m_WorkSize s' = m_WorkSize s"
  have "\<exists>s'. iterate (\<lambda>by s. loop_bx K args
                 (s\<lparr>m_v3uiGridBlockIdx := set_idx1 by (m_v3uiGridBlockIdx s)\<rparr>))
          [0..<unat (idx1 (GridBlocks (m_WorkSize s)))] s = Returned s' \<and> ?I s'
        \<and> kernelCalls s' = kernelCalls s \<and> m_vvuiSharedMem s' = m_vvuiSharedMem s"
  proof (rule iterate_frame [where I = ?I])
    show "?I s" by simp
  next
    fix b and s1 :: "'a AccOpenMp"
    assume I: "?I s1"
    let ?s2 = "s1\<lparr>m_v3uiGridBlockIdx := set_idx1 (of_nat b) (m_v3uiGridBlockIdx s1)\<rparr>"
    have "loop_bx K args ?s2 = Returned ?s2"
      using I g0 by (intro loop_bx_empty) simp
    then show "\<exists>s'. loop_bx K args ?s2 = Returned s' \<and> ?I s'
        \<and> kernelCalls s' = kernelCalls s1 \<and> m_vvuiSharedMem s' = m_vvuiSharedMem s1"
      using I by simp
  qed
  then show ?thesis
    by (simp add: loop_by_def for_u32_def)
qed

lemma loop_bz_empty:
  assumes "idx0 (GridBlocks (m_WorkSize s)) = 0 \<or> idx1 (GridBlocks (m_WorkSize s)) = 0
      \<or> idx2 (GridBlocks (m_WorkSize s)) = 0"
  shows "\<exists>s'. loop_bz K args s = Returned s' \<and> m_WorkSize s' = m_WorkSize s
      \<and> kernelCalls s' = kernelCalls s \<and> m_vvuiSharedMem s' = m_vvuiSharedMem s"
proof (cases "idx2 (GridBlocks (m_WorkSize s)) = 0")
  case True
  then show ?thesis
    by (simp add: loop_bz_def for_u32_def)
next
  case False
  with assms have g: "idx0 (GridBlocks (m_WorkSize s)) = 0 \<or> idx1 (GridBlocks (m_WorkSize s)) = 0"
    by simp
  let ?I = "\<lambda>s'. m_WorkSize s' = m_WorkSize s"
  have "\<exists>s'. iterate (\<lambda>bz s. loop_by K args
                 (s\<lparr>m_v3uiGridBlockIdx := set_idx2 bz (m_v3uiGridBlockIdx s)\<rparr>))
          [0..<unat (idx2 (GridBlocks (m_WorkSize s)))] s = Returned s' \<and> ?I s'
        \<and> kernelCalls s' = kernelCalls s \<and> m_vvuiSharedMem s' = m_vvuiSharedMem s"
  proof (rule iterate_frame [where I = ?I])
    show "?I s" by simp
  next
    fix b and s1 :: "'a AccOpenMp"
    assume I: "?I s1"
    let ?s2 = "s1\<lparr>m_v3uiGridBlockIdx := set_idx2 (of_nat b) (m_v3uiGridBlockIdx s1)\<rparr>"
    have "idx0 (GridBlocks (m_WorkSize ?s2)) = 0 \<or> idx1 (GridBlocks (m_WorkSize ?s2)) = 0"
      using I g by simp
    from loop_by_empty [OF this, of K args]
    show "\<exists>s'. loop_by K args ?s2 = Returned s' \<and> ?I s'
        \<and> kernelCalls s' = kernelCalls s1 \<and> m_vvuiSharedMem s' = m_vvuiSharedMem s1"
      using I by simp
  qed
  then show ?thesis
    by (simp add: loop_bz_def for_u32_def)
qed

lemma executeBlock_not_Thrown: "executeBlock K args s \<noteq> Thrown e s'"
  by (simp add: executeBlock_def Let_def)

lemma iterate_not_Thrown:
  assumes "\<And>b s e s'. body b s \<noteq> Thrown e s'"
  shows "iterate body bs s \<noteq> Thrown e s'"
proof (induction bs arbitrary: s)
  case Nil
  show ?case by simp
next
  case (Cons b bs)
  show ?case
    using assms [of "of_nat b" s] Cons.IH
    by (cases "body (of_nat b) s") simp_all
qed

lemma loop_bx_not_Thrown: "loop_bx K args s \<noteq> Thrown e s'"
  unfolding loop_bx_def for_u32_def by (rule iterate_not_Thrown) (rule executeBlock_not_Thrown)

lemma loop_by_not_Thrown: "loop_by K args s \<noteq> Thrown e s'"
  unfolding loop_by_def for_u32_def by (rule iterate_not_Thrown) (rule loop_bx_not_Thrown)

lemma loop_bz_not_Thrown: "loop_bz K args s \<noteq> Thrown e s'"
  unfolding loop_bz_def for_u32_def by (rule iterate_not_Thrown) (rule loop_by_not_Thrown)

subsection \<open>Segments\<close>

text \<open>
  A collective allocation by a team appends one segment and hands every thread the
  address of that segment; a block appends the segments of its allocations and removes
  none; neither do the loops.
\<close>

lemma allocBlockSharedMem_body_result:
  assumes "n \<noteq> 0"
  shows "allocBlockSharedMem_body sizeofT UiNumElements n s
     = (s\<lparr>m_vvuiSharedMem := m_vvuiSharedMem s @ [replicate UiNumElements 0]\<rparr>,
        replicate (unat n) (length (m_vvuiSharedMem s)))"
proof -
  have "fst (allocBlockSharedMem_body sizeofT UiNumElements n s) = emplace_back UiNumElements s"
    using assms by (rule allocBlockSharedMem_body_state)
  moreover have "snd (allocBlockSharedMem_body sizeofT UiNumElements n s)
      = map (\<lambda>t. back_data (fst (allocBlockSharedMem_body sizeofT UiNumElements n s))) (team n)"
    by (simp add: allocBlockSharedMem_body_def Let_def)
  ultimately show ?thesis
    by (simp add: prod_eq_iff emplace_back_def back_data_def map_replicate_const length_team)
qed

lemma concat_map_const: "concat (map (\<lambda>b. xs) bs) = concat (replicate (length bs) xs)"
  by (induction bs) simp_all

lemma concat_replicate_concat:
  "concat (replicate m (concat (replicate n xs))) = concat (replicate (m * n) xs)"
  by (induction m) (simp_all add: replicate_add)

lemma executeBlock_segments:
  assumes "executeBlock K args s = Returned s'"
  shows "m_vvuiSharedMem s' = m_vvuiSharedMem s @ segs K"
proof -
  let ?n = "of_nat (getSizeBlockKernelsLinear (m_WorkSize s)) :: u32"
  have "?n \<noteq> 0"
    using assms by (auto simp: executeBlock_def Let_def split: if_splits)
  from executeBlock_Returned [OF refl this, of K args] assms
  show ?thesis
    by (auto simp: segs_def)
qed

lemma loop_bz_segments:
  assumes "1 \<le> getSizeBlockKernelsLinear (m_WorkSize s)"
    and "getSizeBlockKernelsLinear (m_WorkSize s) \<le> unat (uiMax::u32)"
  shows "\<exists>s'. loop_bz K args s = Returned s'
      \<and> m_vvuiSharedMem s' = m_vvuiSharedMem s
          @ concat (replicate (getSizeGridBlocksLinear (m_WorkSize s)) (segs K))"
proof -
  let ?n = "of_nat (getSizeBlockKernelsLinear (m_WorkSize s)) :: u32"
  have "unat ?n = getSizeBlockKernelsLinear (m_WorkSize s)"
    using assms(2) by (rule unat_of_nat_u32)
  then have "?n \<noteq> 0"
    using assms(1) by auto
  from loop_bz_acc [OF refl this refl, of K args]
  show ?thesis
    by (auto simp: concat_map_const concat_replicate_concat getSizeGridBlocksLinear_def
        mult.commute mult.left_commute)
qed

subsection \<open>The recursive pitch in closed form\<close>

text \<open>
  The recursion of the default pitch unfolds to the product of the extents from the index
  to the last dimension, times the size of an element.
\<close>

lemma GetPitchBytesDefault_closed:
  assumes "TIdx < Dim view"
  shows "GetPitchBytesDefault TIdx view
     = Some (getExtent view TIdx * sizeofElem view * prod_list (map (getExtent view) [Suc TIdx..<Dim view]))"
  using assms
proof (induction "Dim view - TIdx" arbitrary: TIdx)
  case 0
  then show ?case by simp
next
  case (Suc k)
  show ?case
  proof (cases "TIdx = Dim view - 1")
    case True
    then show ?thesis
      using Suc.prems by (subst GetPitchBytesDefault.simps) simp
  next
    case False
    then have lt: "TIdx < Dim view - 1" "Suc TIdx < Dim view"
      using Suc.prems by simp_all
    have "k = Dim view - Suc TIdx"
      using Suc.hyps(2) by simp
    from Suc.hyps(1) [OF this lt(2)]
    have ih: "GetPitchBytesDefault (Suc TIdx) view
        = Some (getExtent view (Suc TIdx) * sizeofElem view
            * prod_list (map (getExtent view) [Suc (Suc TIdx)..<Dim view]))" .
    have "[Suc TIdx..<Dim view] = Suc TIdx # [Suc (Suc TIdx)..<Dim view]"
      using lt(2) by (simp add: upt_conv_Cons)
    then show ?thesis
      using lt ih by (subst GetPitchBytesDefault.simps) (simp add: mult_ac)
  qed
qed

section \<open>The claims\<close>

subsection \<open>Capacity validation\<close>

text \<open>
  C1, as the code has it. When the product of the block-thread extent exceeds the maximum
  that the backend reports, the executor throws its \<^verbatim>\<open>std::runtime_error\<close> before any
  kernel body is invoked: no call is recorded, the shared memory and the external shared
  memory are neither allocated nor resized, and the grid-block index is untouched. One
  member has changed when the exception leaves: the work size, which the first statement
  of the executor has already overwritten with the caller's.
\<close>

theorem capacity_error_before_any_thread:
  assumes "unat uiMaxKernelsPerBlock < getSizeBlockKernelsLinear workSize"
  shows "KernelExecutor_call K uiMaxKernelsPerBlock workSize args s
         = Thrown (RuntimeError (getSizeBlockKernelsLinear workSize) (unat uiMaxKernelsPerBlock))
             (s\<lparr>m_WorkSize := workSize\<rparr>)"
  using assms by (simp add: KernelExecutor_call_def Let_def)

theorem capacity_error_before_any_thread_witness:
  "unat (256::u32) < getSizeBlockKernelsLinear \<lparr>GridBlocks = (1, 1, 1), BlockKernels = (17, 17, 1)\<rparr>
   \<and> KernelExecutor_call K0 256 \<lparr>GridBlocks = (1, 1, 1), BlockKernels = (17, 17, 1)\<rparr> ()
         (acc0 unitWorkSize)
       = Thrown (RuntimeError
                  (getSizeBlockKernelsLinear \<lparr>GridBlocks = (1, 1, 1), BlockKernels = (17, 17, 1)\<rparr>)
                  (unat (256::u32)))
           ((acc0 unitWorkSize)\<lparr>m_WorkSize := \<lparr>GridBlocks = (1, 1, 1), BlockKernels = (17, 17, 1)\<rparr>\<rparr>)"
  using capacity_error_before_any_thread
    [of 256 "\<lparr>GridBlocks = (1, 1, 1), BlockKernels = (17, 17, 1)\<rparr>" K0 "()" "acc0 unitWorkSize"]
  by (simp add: getSizeBlockKernelsLinear_def)

text \<open>
  C1 as it is stated asks that no per-launch state is modified, the bound work division
  included. With a maximum of 256 and the block extent \<open>(17, 17, 1)\<close> of 289 threads, on an
  accelerator bound to the work size \<open>(1, 1, 1) / (1, 1, 1)\<close>, the exception leaves an
  accelerator that is bound to the rejected work size.
\<close>

theorem rejected_work_size_stays_bound:
  "unat (256::u32) < getSizeBlockKernelsLinear \<lparr>GridBlocks = (1, 1, 1), BlockKernels = (17, 17, 1)\<rparr>
   \<and> KernelExecutor_call K0 256 \<lparr>GridBlocks = (1, 1, 1), BlockKernels = (17, 17, 1)\<rparr> ()
         (acc0 unitWorkSize)
       = Thrown (RuntimeError 289 256)
           ((acc0 unitWorkSize)\<lparr>m_WorkSize := \<lparr>GridBlocks = (1, 1, 1), BlockKernels = (17, 17, 1)\<rparr>\<rparr>)
   \<and> KernelExecutor_call K0 256 \<lparr>GridBlocks = (1, 1, 1), BlockKernels = (17, 17, 1)\<rparr> ()
         (acc0 unitWorkSize)
       \<noteq> Thrown (RuntimeError 289 256) (acc0 unitWorkSize)"
  by (simp add: KernelExecutor_call_def Let_def getSizeBlockKernelsLinear_def acc0_def
      unitWorkSize_def)

subsection \<open>Linearization\<close>

text \<open>
  C2, as the code has it. For every extent \<open>(e0, e1, e2)\<close> with every axis at least 1 whose
  linear ids all fit the 32-bit components (\<open>e0 * e1 < 2^32\<close> and \<open>e0 * e1 * e2 \<le> 2^32\<close>),
  and every coordinate \<open>c\<close> valid for it, the block-thread index that the accelerator
  derives from the linear id of \<open>c\<close> is \<open>c\<close> again.
\<close>

theorem linearization_roundtrip:
  assumes "1 \<le> e0" and "1 \<le> e1" and "1 \<le> e2"
    and "valid_coord (c0, c1, c2) (e0, e1, e2)"
    and "unat e0 * unat e1 < 2 ^ 32"
    and "unat e0 * unat e1 * unat e2 \<le> 2 ^ 32"
  shows "getIdxBlockKernel \<lparr>GridBlocks = g, BlockKernels = (e0, e1, e2)\<rparr>
           (of_nat (linearize (uvec (c0, c1, c2)) (uvec (e0, e1, e2))))
         = Inr (c0, c1, c2)"
proof -
  have "e0 \<noteq> 0" and "e1 \<noteq> 0"
    using assms(1,2) by auto
  then show ?thesis
    using getIdxBlockKernel_linearize(1)
      [of "\<lparr>GridBlocks = g, BlockKernels = (e0, e1, e2)\<rparr>" "(c0, c1, c2)"] assms(4,5,6)
    by (simp add: getSizeBlockKernelsLinear_def)
qed

theorem linearization_roundtrip_witness:
  "(1::u32) \<le> 3 \<and> (1::u32) \<le> 4 \<and> (1::u32) \<le> 2
   \<and> valid_coord (2, 1, 1) (3, 4, 2)
   \<and> unat (3::u32) * unat (4::u32) < 2 ^ 32
   \<and> unat (3::u32) * unat (4::u32) * unat (2::u32) \<le> 2 ^ 32
   \<and> getIdxBlockKernel \<lparr>GridBlocks = (1, 1, 1), BlockKernels = (3, 4, 2)\<rparr>
         (of_nat (linearize (uvec (2, 1, 1)) (uvec (3, 4, 2))))
       = Inr (2, 1, 1)"
  using linearization_roundtrip [of 3 4 2 2 1 1 "(1, 1, 1)"]
  by (simp add: valid_coord_def)

text \<open>
  C2 as it is stated quantifies over every extent with axes of at least 1. In the extent
  \<open>(65536, 65536, 1)\<close> the product \<open>e1 * e0\<close> is \<open>2^32\<close>, which is 0 in 32 bits: for the valid
  coordinate \<open>(1, 0, 0)\<close>, whose linear id is 1, the accelerator takes a remainder by
  zero and returns nothing. In the extent \<open>(3, 1431655766, 2)\<close> the product \<open>e1 * e0\<close> is
  \<open>2^32 + 2\<close>, which is 2 in 32 bits: for the valid coordinate \<open>(0, 1, 0)\<close>, whose linear id
  is 3, the accelerator returns \<open>(1, 0, 1)\<close>.
\<close>

theorem roundtrip_lost_in_wide_extent:
  "(1::u32) \<le> 65536 \<and> (1::u32) \<le> 65536 \<and> (1::u32) \<le> 1
   \<and> valid_coord (1, 0, 0) (65536, 65536, 1)
   \<and> getIdxBlockKernel \<lparr>GridBlocks = (1, 1, 1), BlockKernels = (65536, 65536, 1)\<rparr>
         (of_nat (linearize (uvec (1, 0, 0)) (uvec (65536, 65536, 1))))
       \<noteq> Inr (1, 0, 0)
   \<and> (1::u32) \<le> 3 \<and> (1::u32) \<le> 1431655766 \<and> (1::u32) \<le> 2
   \<and> valid_coord (0, 1, 0) (3, 1431655766, 2)
   \<and> linearize (uvec (0, 1, 0)) (uvec (3, 1431655766, 2)) = 3
   \<and> getIdxBlockKernel \<lparr>GridBlocks = (1, 1, 1), BlockKernels = (3, 1431655766, 2)\<rparr>
         (of_nat (linearize (uvec (0, 1, 0)) (uvec (3, 1431655766, 2))))
       = Inr (1, 0, 1)"
  by (simp add: getIdxBlockKernel_def valid_coord_def uvec_def linearize_def)

text \<open>
  C3, as the code has it. For every block-thread extent \<open>(e0, e1, e2)\<close> with axes of at
  least 1 whose plane \<open>e0 * e1\<close> fits the 32-bit components, and every thread number
  \<open>t < e0 * e1 * e2\<close>, the expressions of the code,
  \<open>((t mod (e1 * e0)) mod e0, (t mod (e1 * e0)) / e0, t / (e1 * e0))\<close>, give the coordinate
  \<open>(t mod e0, (t / e0) mod e1, t / (e0 * e1))\<close> of the rule.
\<close>

theorem block_thread_index_rule:
  assumes "1 \<le> e0" and "1 \<le> e1" and "1 \<le> e2"
    and "unat e0 * unat e1 < 2 ^ 32"
    and "unat t < unat e0 * unat e1 * unat e2"
  shows "map_sum id uvec (getIdxBlockKernel \<lparr>GridBlocks = g, BlockKernels = (e0, e1, e2)\<rparr> t)
         = Inr (delinearize (unat e0, unat e1, unat e2) (unat t))"
proof -
  have "e0 \<noteq> 0" and "e1 \<noteq> 0"
    using assms(1,2) by auto
  then show ?thesis
    using getIdxBlockKernel_unat [of "\<lparr>GridBlocks = g, BlockKernels = (e0, e1, e2)\<rparr>" t] assms(4)
    by (simp add: uvec_def)
qed

theorem block_thread_index_rule_witness:
  "(1::u32) \<le> 3 \<and> (1::u32) \<le> 4 \<and> (1::u32) \<le> 2
   \<and> unat (3::u32) * unat (4::u32) < 2 ^ 32
   \<and> unat (17::u32) < unat (3::u32) * unat (4::u32) * unat (2::u32)
   \<and> map_sum id uvec (getIdxBlockKernel \<lparr>GridBlocks = (1, 1, 1), BlockKernels = (3, 4, 2)\<rparr> 17)
       = Inr (delinearize (unat (3::u32), unat (4::u32), unat (2::u32)) (unat (17::u32)))"
  using block_thread_index_rule [of 3 4 2 17 "(1, 1, 1)"] by simp

text \<open>
  C3 as it is stated quantifies over every extent with axes of at least 1. In the extent
  \<open>(65536, 65536, 1)\<close> and for the thread number 1, which is below the product \<open>2^32\<close>, the
  rule gives \<open>(1, 0, 0)\<close>; the code divides by \<open>e1 * e0\<close>, which is 0 in 32 bits. In the
  extent \<open>(3, 1431655766, 2)\<close> and for the thread number 3 the rule gives \<open>(0, 1, 0)\<close>; the
  code, for which \<open>e1 * e0\<close> is 2, returns \<open>(1, 0, 1)\<close>.
\<close>

theorem index_rule_lost_in_wide_extent:
  "(1::u32) \<le> 65536 \<and> (1::u32) \<le> 65536 \<and> (1::u32) \<le> 1
   \<and> unat (1::u32) < unat (65536::u32) * unat (65536::u32) * unat (1::u32)
   \<and> delinearize (unat (65536::u32), unat (65536::u32), unat (1::u32)) (unat (1::u32)) = (1, 0, 0)
   \<and> map_sum id uvec
         (getIdxBlockKernel \<lparr>GridBlocks = (1, 1, 1), BlockKernels = (65536, 65536, 1)\<rparr> 1)
       \<noteq> Inr (delinearize (unat (65536::u32), unat (65536::u32), unat (1::u32)) (unat (1::u32)))
   \<and> (1::u32) \<le> 3 \<and> (1::u32) \<le> 1431655766 \<and> (1::u32) \<le> 2
   \<and> unat (3::u32) < unat (3::u32) * unat (1431655766::u32) * unat (2::u32)
   \<and> delinearize (unat (3::u32), unat (1431655766::u32), unat (2::u32)) (unat (3::u32)) = (0, 1, 0)
   \<and> getIdxBlockKernel \<lparr>GridBlocks = (1, 1, 1), BlockKernels = (3, 1431655766, 2)\<rparr> 3
       = Inr (1, 0, 1)"
  by (simp add: getIdxBlockKernel_def delinearize_def)

subsection \<open>The dispatch loop\<close>

text \<open>
  C4. For every launch that passes the validation and whose block-thread extent has no
  zero axis, the executor returns, and the calls it has added to the record are
  \<open>product(g) * product(b)\<close> many; what they observe is pairwise different, and it is
  exactly one call for every pair of a block coordinate valid for \<open>g\<close> and a thread
  coordinate valid for \<open>b\<close>, each with the caller's arguments. The grid-block index of a
  call is the member that the loops have assigned, never a value derived from the thread
  number. (The axes of the grid may even be zero: then there is no call.)
\<close>

theorem dispatch_invokes_once_per_coordinate:
  assumes fits: "getSizeBlockKernelsLinear ws \<le> unat uiMaxKernelsPerBlock"
    and nz: "idx0 (BlockKernels ws) \<noteq> 0" "idx1 (BlockKernels ws) \<noteq> 0"
      "idx2 (BlockKernels ws) \<noteq> 0"
  shows "\<exists>s' calls. KernelExecutor_call K uiMaxKernelsPerBlock ws args s = Returned s'
      \<and> kernelCalls s' = kernelCalls s @ calls
      \<and> length calls = getSizeGridBlocksLinear ws * getSizeBlockKernelsLinear ws
      \<and> distinct (map (observe ws) calls)
      \<and> set (map (observe ws) calls)
          = {(b, Inr c, args) | b c. valid_coord b (GridBlocks ws) \<and> valid_coord c (BlockKernels ws)}"
proof -
  let ?n = "of_nat (getSizeBlockKernelsLinear ws) :: u32"
  have n: "unat ?n = getSizeBlockKernelsLinear ws"
    using fits by (rule unat_of_nat_u32)
  have "0 < getSizeBlockKernelsLinear ws"
    using nz by (simp add: getSizeBlockKernelsLinear_def unat_gt_0)
  then have n0: "?n \<noteq> 0"
    using n by auto
  let ?s1 = "s\<lparr>m_WorkSize := ws,
      m_vuiExternalSharedMem := resize (getBlockSharedExternMemSizeBytes K (BlockKernels ws))
        (m_vuiExternalSharedMem s)\<rparr>"
  have "m_WorkSize ?s1 = ws"
    by simp
  from loop_bz_acc [OF refl n0 this, of K args]
  obtain s2 where s2: "loop_bz K args ?s1 = Returned s2"
      "kernelCalls s2 = kernelCalls s @ gridCalls args ?n (GridBlocks ws)"
    by auto
  have "KernelExecutor_call K uiMaxKernelsPerBlock ws args s
      = Returned (s2\<lparr>m_vvuiSharedMem := [], m_vuiExternalSharedMem := []\<rparr>)"
    using fits s2(1) by (simp add: KernelExecutor_call_def Let_def)
  moreover have "length (gridCalls args ?n (GridBlocks ws))
      = getSizeGridBlocksLinear ws * getSizeBlockKernelsLinear ws"
    by (simp add: gridCalls_length n getSizeGridBlocksLinear_def)
  moreover note gridCalls_observe_distinct [OF fits nz, of args ?n "GridBlocks ws"]
    gridCalls_observe_set [OF fits nz n, of args "GridBlocks ws"]
  ultimately show ?thesis
    using s2(2) by auto
qed

theorem dispatch_invokes_once_per_coordinate_witness:
  "getSizeBlockKernelsLinear \<lparr>GridBlocks = (2, 1, 1), BlockKernels = (2, 2, 1)\<rparr> \<le> unat (256::u32)
   \<and> idx0 (BlockKernels \<lparr>GridBlocks = (2, 1, 1), BlockKernels = (2, 2, 1)\<rparr>) \<noteq> 0
   \<and> idx1 (BlockKernels \<lparr>GridBlocks = (2, 1, 1), BlockKernels = (2, 2, 1)\<rparr>) \<noteq> 0
   \<and> idx2 (BlockKernels \<lparr>GridBlocks = (2, 1, 1), BlockKernels = (2, 2, 1)\<rparr>) \<noteq> 0
   \<and> (\<exists>s' calls.
         KernelExecutor_call K1 256 \<lparr>GridBlocks = (2, 1, 1), BlockKernels = (2, 2, 1)\<rparr> ()
           (acc0 unitWorkSize) = Returned s'
       \<and> kernelCalls s' = kernelCalls (acc0 unitWorkSize) @ calls
       \<and> length calls
           = getSizeGridBlocksLinear \<lparr>GridBlocks = (2, 1, 1), BlockKernels = (2, 2, 1)\<rparr>
             * getSizeBlockKernelsLinear \<lparr>GridBlocks = (2, 1, 1), BlockKernels = (2, 2, 1)\<rparr>
       \<and> distinct (map (observe \<lparr>GridBlocks = (2, 1, 1), BlockKernels = (2, 2, 1)\<rparr>) calls)
       \<and> set (map (observe \<lparr>GridBlocks = (2, 1, 1), BlockKernels = (2, 2, 1)\<rparr>) calls)
           = {(b, Inr c, ()) | b c.
                valid_coord b (GridBlocks \<lparr>GridBlocks = (2, 1, 1), BlockKernels = (2, 2, 1)\<rparr>)
              \<and> valid_coord c (BlockKernels \<lparr>GridBlocks = (2, 1, 1), BlockKernels = (2, 2, 1)\<rparr>)})"
proof -
  have h: "getSizeBlockKernelsLinear \<lparr>GridBlocks = (2, 1, 1), BlockKernels = (2, 2, 1)\<rparr>
      \<le> unat (256::u32)"
    by (simp add: getSizeBlockKernelsLinear_def)
  have z: "idx0 (BlockKernels \<lparr>GridBlocks = (2, 1, 1), BlockKernels = (2, 2, 1)\<rparr>) \<noteq> 0"
    "idx1 (BlockKernels \<lparr>GridBlocks = (2, 1, 1), BlockKernels = (2, 2, 1)\<rparr>) \<noteq> 0"
    "idx2 (BlockKernels \<lparr>GridBlocks = (2, 1, 1), BlockKernels = (2, 2, 1)\<rparr>) \<noteq> 0"
    by simp_all
  show ?thesis
    using h z dispatch_invokes_once_per_coordinate [OF h z, of K1 "()" "acc0 unitWorkSize"]
    by blast
qed

text \<open>
  C8, as the code has it. A zero axis of the block-thread extent makes the product 0, which
  never exceeds the maximum: the executor does not throw. A zero axis of the grid-block
  extent leaves the loops without a block to run: if the product of the block-thread
  extent does not exceed the maximum, the launch completes and no kernel body has been
  invoked. (Nothing is said here of a block-thread extent with a zero axis under a grid
  that has blocks: the executor then enters a \<^verbatim>\<open>parallel\<close> region with \<^verbatim>\<open>num_threads(0)\<close>.)
\<close>

theorem empty_domain_launch:
  "(idx0 (BlockKernels ws) = 0 \<or> idx1 (BlockKernels ws) = 0 \<or> idx2 (BlockKernels ws) = 0
      \<longrightarrow> (\<forall>e s'. KernelExecutor_call K uiMaxKernelsPerBlock ws args s \<noteq> Thrown e s'))
   \<and> ((idx0 (GridBlocks ws) = 0 \<or> idx1 (GridBlocks ws) = 0 \<or> idx2 (GridBlocks ws) = 0)
        \<and> getSizeBlockKernelsLinear ws \<le> unat uiMaxKernelsPerBlock
      \<longrightarrow> (\<exists>s'. KernelExecutor_call K uiMaxKernelsPerBlock ws args s = Returned s'
             \<and> kernelCalls s' = kernelCalls s))"
proof (intro conjI impI allI)
  fix e s'
  assume "idx0 (BlockKernels ws) = 0 \<or> idx1 (BlockKernels ws) = 0 \<or> idx2 (BlockKernels ws) = 0"
  then have "getSizeBlockKernelsLinear ws = 0"
    by (auto simp: getSizeBlockKernelsLinear_def)
  then show "KernelExecutor_call K uiMaxKernelsPerBlock ws args s \<noteq> Thrown e s'"
    using loop_bz_not_Thrown [of K args]
    by (simp add: KernelExecutor_call_def Let_def split: outcome.splits)
next
  assume a: "(idx0 (GridBlocks ws) = 0 \<or> idx1 (GridBlocks ws) = 0 \<or> idx2 (GridBlocks ws) = 0)
      \<and> getSizeBlockKernelsLinear ws \<le> unat uiMaxKernelsPerBlock"
  let ?s1 = "s\<lparr>m_WorkSize := ws,
      m_vuiExternalSharedMem := resize (getBlockSharedExternMemSizeBytes K (BlockKernels ws))
        (m_vuiExternalSharedMem s)\<rparr>"
  have "idx0 (GridBlocks (m_WorkSize ?s1)) = 0 \<or> idx1 (GridBlocks (m_WorkSize ?s1)) = 0
      \<or> idx2 (GridBlocks (m_WorkSize ?s1)) = 0"
    using a by simp
  from loop_bz_empty [OF this, of K args]
  obtain s2 where "loop_bz K args ?s1 = Returned s2" "kernelCalls s2 = kernelCalls s"
    by auto
  then show "\<exists>s'. KernelExecutor_call K uiMaxKernelsPerBlock ws args s = Returned s'
      \<and> kernelCalls s' = kernelCalls s"
    using a by (simp add: KernelExecutor_call_def Let_def)
qed

theorem empty_domain_launch_witness:
  "(idx0 (BlockKernels \<lparr>GridBlocks = (1, 1, 1), BlockKernels = (0, 1, 1)\<rparr>) = 0
      \<or> idx1 (BlockKernels \<lparr>GridBlocks = (1, 1, 1), BlockKernels = (0, 1, 1)\<rparr>) = 0
      \<or> idx2 (BlockKernels \<lparr>GridBlocks = (1, 1, 1), BlockKernels = (0, 1, 1)\<rparr>) = 0)
   \<and> (\<forall>e s'. KernelExecutor_call K0 256 \<lparr>GridBlocks = (1, 1, 1), BlockKernels = (0, 1, 1)\<rparr> ()
         (acc0 unitWorkSize) \<noteq> Thrown e s')
   \<and> (idx0 (GridBlocks \<lparr>GridBlocks = (0, 1, 1), BlockKernels = (2, 2, 1)\<rparr>) = 0
      \<or> idx1 (GridBlocks \<lparr>GridBlocks = (0, 1, 1), BlockKernels = (2, 2, 1)\<rparr>) = 0
      \<or> idx2 (GridBlocks \<lparr>GridBlocks = (0, 1, 1), BlockKernels = (2, 2, 1)\<rparr>) = 0)
   \<and> getSizeBlockKernelsLinear \<lparr>GridBlocks = (0, 1, 1), BlockKernels = (2, 2, 1)\<rparr> \<le> unat (256::u32)
   \<and> (\<exists>s'. KernelExecutor_call K0 256 \<lparr>GridBlocks = (0, 1, 1), BlockKernels = (2, 2, 1)\<rparr> ()
         (acc0 unitWorkSize) = Returned s'
       \<and> kernelCalls s' = kernelCalls (acc0 unitWorkSize))"
  using empty_domain_launch
      [of "\<lparr>GridBlocks = (1, 1, 1), BlockKernels = (0, 1, 1)\<rparr>" K0 256 "()" "acc0 unitWorkSize"]
    empty_domain_launch
      [of "\<lparr>GridBlocks = (0, 1, 1), BlockKernels = (2, 2, 1)\<rparr>" K0 256 "()" "acc0 unitWorkSize"]
  by (simp add: getSizeBlockKernelsLinear_def)

text \<open>
  C8 as it is stated promises a launch without error and without invocation for every work
  division with a zero axis. With a maximum of 256, the grid extent \<open>(0, 1, 1)\<close> and the
  block extent \<open>(17, 17, 1)\<close> the executor throws: it validates the block extent whatever the
  grid is. With the grid extent \<open>(1, 1, 1)\<close> and the block extent \<open>(0, 1, 1)\<close> the one block
  of the grid opens a \<^verbatim>\<open>parallel\<close> region with \<^verbatim>\<open>num_threads(0)\<close>, which OpenMP does not
  define.
\<close>

theorem zero_axis_launch_fails:
  "KernelExecutor_call K0 256 \<lparr>GridBlocks = (0, 1, 1), BlockKernels = (17, 17, 1)\<rparr> ()
       (acc0 unitWorkSize)
     = Thrown (RuntimeError 289 256)
         ((acc0 unitWorkSize)\<lparr>m_WorkSize := \<lparr>GridBlocks = (0, 1, 1), BlockKernels = (17, 17, 1)\<rparr>\<rparr>)
   \<and> KernelExecutor_call K0 256 \<lparr>GridBlocks = (1, 1, 1), BlockKernels = (0, 1, 1)\<rparr> ()
       (acc0 unitWorkSize)
     = Undefined NumThreadsNotPositive"
  by (simp add: KernelExecutor_call_def Let_def getSizeBlockKernelsLinear_def acc0_def
      unitWorkSize_def loop_bz_def loop_by_def loop_bx_def for_u32_def upt_rec executeBlock_def)

subsection \<open>Block shared memory\<close>

text \<open>
  C5, as the code has it. The segments are discarded once, by the \<^verbatim>\<open>clear()\<close> that follows
  the three loops. A block that has run leaves the list as it found it, with its own
  segments appended; after the loops of a validated launch with at least one thread per
  block the list holds, behind what it held before, the segments of every block of the
  grid; and the list and the external shared memory are empty when the executor returns,
  so that no segment outlives the launch.
\<close>

theorem segments_live_until_launch_end:
  "(executeBlock K args s = Returned s' \<longrightarrow> m_vvuiSharedMem s' = m_vvuiSharedMem s @ segs K)
   \<and> (1 \<le> getSizeBlockKernelsLinear (m_WorkSize s)
        \<and> getSizeBlockKernelsLinear (m_WorkSize s) \<le> unat (uiMaxKernelsPerBlock::u32)
      \<longrightarrow> (\<exists>s2. loop_bz K args s = Returned s2
             \<and> m_vvuiSharedMem s2 = m_vvuiSharedMem s
                 @ concat (replicate (getSizeGridBlocksLinear (m_WorkSize s)) (segs K))))
   \<and> (KernelExecutor_call K uiMaxKernelsPerBlock ws args s = Returned s3
      \<longrightarrow> m_vvuiSharedMem s3 = [] \<and> m_vuiExternalSharedMem s3 = [])"
proof (intro conjI impI)
  assume "executeBlock K args s = Returned s'"
  then show "m_vvuiSharedMem s' = m_vvuiSharedMem s @ segs K"
    by (rule executeBlock_segments)
next
  assume "1 \<le> getSizeBlockKernelsLinear (m_WorkSize s)
      \<and> getSizeBlockKernelsLinear (m_WorkSize s) \<le> unat uiMaxKernelsPerBlock"
  then show "\<exists>s2. loop_bz K args s = Returned s2
      \<and> m_vvuiSharedMem s2 = m_vvuiSharedMem s
          @ concat (replicate (getSizeGridBlocksLinear (m_WorkSize s)) (segs K))"
    using loop_bz_segments [of s uiMaxKernelsPerBlock K args] by simp
next
  assume r: "KernelExecutor_call K uiMaxKernelsPerBlock ws args s = Returned s3"
  then show "m_vvuiSharedMem s3 = []"
    by (auto simp: KernelExecutor_call_def Let_def split: if_splits outcome.splits)
  from r show "m_vuiExternalSharedMem s3 = []"
    by (auto simp: KernelExecutor_call_def Let_def split: if_splits outcome.splits)
qed

theorem segments_live_until_launch_end_witness:
  "executeBlock K1 () (acc0 twoBlocks) = Returned afterFirstBlock
   \<and> m_vvuiSharedMem afterFirstBlock = m_vvuiSharedMem (acc0 twoBlocks) @ segs K1
   \<and> 1 \<le> getSizeBlockKernelsLinear (m_WorkSize (acc0 twoBlocks))
   \<and> getSizeBlockKernelsLinear (m_WorkSize (acc0 twoBlocks)) \<le> unat (256::u32)
   \<and> (\<exists>s2. loop_bz K1 () (acc0 twoBlocks) = Returned s2
         \<and> m_vvuiSharedMem s2 = m_vvuiSharedMem (acc0 twoBlocks)
             @ concat (replicate (getSizeGridBlocksLinear (m_WorkSize (acc0 twoBlocks))) (segs K1)))
   \<and> KernelExecutor_call K1 256 twoBlocks () (acc0 twoBlocks) = Returned afterLaunch
   \<and> m_vvuiSharedMem afterLaunch = [] \<and> m_vuiExternalSharedMem afterLaunch = []"
proof -
  have b: "executeBlock K1 () (acc0 twoBlocks) = Returned afterFirstBlock"
    by (simp add: executeBlock_def Let_def getSizeBlockKernelsLinear_def acc0_def K1_def
        blockCalls_def team_def runKernelBody_def allocBlockSharedMem_body_def
        syncBlockKernels_def emplace_back_def getIdxGridBlock_def upt_rec twoBlocks_def
        afterFirstBlock_def)
  have n: "1 \<le> getSizeBlockKernelsLinear (m_WorkSize (acc0 twoBlocks))
      \<and> getSizeBlockKernelsLinear (m_WorkSize (acc0 twoBlocks)) \<le> unat (256::u32)"
    by (simp add: getSizeBlockKernelsLinear_def acc0_def twoBlocks_def)
  have l: "KernelExecutor_call K1 256 twoBlocks () (acc0 twoBlocks) = Returned afterLaunch"
    by (simp add: KernelExecutor_call_def loop_bz_def loop_by_def loop_bx_def for_u32_def
        upt_rec executeBlock_def Let_def getSizeBlockKernelsLinear_def acc0_def K1_def
        blockCalls_def team_def runKernelBody_def allocBlockSharedMem_body_def
        syncBlockKernels_def emplace_back_def getIdxGridBlock_def set_idx0_def set_idx1_def
        set_idx2_def resize_def twoBlocks_def afterLaunch_def)
  show ?thesis
    using b n l
      segments_live_until_launch_end
        [of K1 "()" "acc0 twoBlocks" afterFirstBlock 256 twoBlocks afterLaunch]
    by blast
qed

text \<open>
  C5 as it is stated has the segments of a block discarded before a later block begins.
  In a row of two blocks of one thread each, with a kernel whose threads allocate one
  element of a four-byte type, the list holds two segments when the second block has
  passed its barrier: the segment of the block \<open>(0, 0, 0)\<close> is still there.
\<close>

theorem segment_outlives_its_block:
  "loop_bx K1 () (acc0 twoBlocks)
   = Returned \<lparr>m_WorkSize = twoBlocks,
        m_v3uiGridBlockIdx = (1, 0, 0), m_vvuiSharedMem = [[0], [0]],
        m_vuiExternalSharedMem = [],
        kernelCalls = [((0, 0, 0), 0, ()), ((1, 0, 0), 0, ())]\<rparr>"
  by (simp add: loop_bx_def for_u32_def upt_rec executeBlock_def Let_def
      getSizeBlockKernelsLinear_def acc0_def K1_def blockCalls_def team_def runKernelBody_def
      allocBlockSharedMem_body_def syncBlockKernels_def emplace_back_def getIdxGridBlock_def
      set_idx0_def twoBlocks_def)

text \<open>
  C6, at the input where the code departs from it. Two threads of a block call
  \<^verbatim>\<open>allocBlockSharedMem<T, 1>\<close> for a type \<open>T\<close> of four bytes on an accelerator without
  segments. One segment is appended and both threads receive its address, as C6 says;
  but the segment has 1 byte, not the 4 bytes that one element of \<open>T\<close> takes: the count
  of elements is passed to the byte vector as its size.
\<close>

theorem allocBlockSharedMem_counts_bytes:
  "map_sum id (\<lambda>run. (map length (m_vvuiSharedMem (fst (run 2 (acc0 unitWorkSize)))),
                       snd (run 2 (acc0 unitWorkSize))))
     (allocBlockSharedMem 4 1)
   = Inr ([1], [0, 0])"
  by (simp add: allocBlockSharedMem_def allocBlockSharedMem_body_def Let_def syncBlockKernels_def
      team_def upt_rec emplace_back_def back_data_def acc0_def)

text \<open>
  C9. Whatever the element type, the instantiation \<^verbatim>\<open>allocBlockSharedMem<T, 0>\<close> is rejected
  by the static assertion; an instantiation that the compiler accepts has a positive
  count, and every collective call of it by a team appends one segment of that many
  bytes, never an empty one.
\<close>

theorem allocBlockSharedMem_rejects_zero:
  "(allocBlockSharedMem sizeofT 0
      :: build_error + (u32 \<Rightarrow> 'a AccOpenMp \<Rightarrow> 'a AccOpenMp \<times> nat list))
     = Inl StaticAssertNumElementsZero
   \<and> (\<forall>run :: u32 \<Rightarrow> 'a AccOpenMp \<Rightarrow> 'a AccOpenMp \<times> nat list.
        allocBlockSharedMem sizeofT UiNumElements = Inr run \<longrightarrow>
          0 < UiNumElements
          \<and> (\<forall>n s. n \<noteq> 0 \<longrightarrow>
                (\<exists>segment. m_vvuiSharedMem (fst (run n s)) = m_vvuiSharedMem s @ [segment]
                   \<and> length segment = UiNumElements \<and> 0 < length segment)))"
proof (intro conjI allI impI)
  show "(allocBlockSharedMem sizeofT 0
      :: build_error + (u32 \<Rightarrow> 'a AccOpenMp \<Rightarrow> 'a AccOpenMp \<times> nat list))
     = Inl StaticAssertNumElementsZero"
    by (simp add: allocBlockSharedMem_def)
next
  fix run :: "u32 \<Rightarrow> 'a AccOpenMp \<Rightarrow> 'a AccOpenMp \<times> nat list"
  assume accepted: "allocBlockSharedMem sizeofT UiNumElements = Inr run"
  then show positive: "0 < UiNumElements"
    by (simp add: allocBlockSharedMem_def split: if_splits)
  fix n :: u32 and s :: "'a AccOpenMp"
  assume "n \<noteq> 0"
  then have "allocBlockSharedMem_body sizeofT UiNumElements n s
      = (s\<lparr>m_vvuiSharedMem := m_vvuiSharedMem s @ [replicate UiNumElements 0]\<rparr>,
         replicate (unat n) (length (m_vvuiSharedMem s)))"
    by (rule allocBlockSharedMem_body_result)
  moreover have "run = allocBlockSharedMem_body sizeofT UiNumElements"
    using accepted by (simp add: allocBlockSharedMem_def split: if_splits)
  ultimately have "m_vvuiSharedMem (fst (run n s))
      = m_vvuiSharedMem s @ [replicate UiNumElements 0]"
    by simp
  then show "\<exists>segment. m_vvuiSharedMem (fst (run n s)) = m_vvuiSharedMem s @ [segment]
      \<and> length segment = UiNumElements \<and> 0 < length segment"
    using positive by simp
qed

theorem allocBlockSharedMem_rejects_zero_witness:
  "(allocBlockSharedMem 4 0
      :: build_error + (u32 \<Rightarrow> unit AccOpenMp \<Rightarrow> unit AccOpenMp \<times> nat list))
     = Inl StaticAssertNumElementsZero
   \<and> (allocBlockSharedMem 4 3
        :: build_error + (u32 \<Rightarrow> unit AccOpenMp \<Rightarrow> unit AccOpenMp \<times> nat list))
     = Inr (allocBlockSharedMem_body 4 3)
   \<and> (0::nat) < 3
   \<and> (2::u32) \<noteq> 0
   \<and> (\<exists>segment.
         m_vvuiSharedMem (fst (allocBlockSharedMem_body 4 3 2 (acc0 unitWorkSize)))
           = m_vvuiSharedMem (acc0 unitWorkSize) @ [segment]
       \<and> length segment = 3 \<and> 0 < length segment)"
proof -
  have r: "(allocBlockSharedMem 4 3
        :: build_error + (u32 \<Rightarrow> unit AccOpenMp \<Rightarrow> unit AccOpenMp \<times> nat list))
     = Inr (allocBlockSharedMem_body 4 3)"
    by (simp add: allocBlockSharedMem_def)
  have n: "(2::u32) \<noteq> 0"
    by simp
  from allocBlockSharedMem_rejects_zero [where 'a = unit, of 4 3] r n
  show ?thesis
    by blast
qed

subsection \<open>The two pitch traits\<close>

text \<open>
  C10, as the code has it. For every view and every dimension index \<open>i\<close> below the number
  of dimensions, the recursive default of \<^verbatim>\<open>mem/view/Traits.hpp\<close> returns the value of the
  trait of \<^verbatim>\<open>traits/mem/View.hpp\<close>, \<open>extent[i] * sizeof(element)\<close>, multiplied by the extents
  of all later dimensions; the two agree for the last dimension index.
\<close>

theorem pitch_traits_relation:
  assumes "TIdx < Dim view"
  shows "mem_view_GetPitchBytes TIdx view
      = Some (traits_mem_GetPitchBytes TIdx view
               * prod_list (map (getExtent view) [Suc TIdx..<Dim view]))
    \<and> (TIdx = Dim view - 1
      \<longrightarrow> mem_view_GetPitchBytes TIdx view = Some (traits_mem_GetPitchBytes TIdx view))"
proof -
  have closed: "mem_view_GetPitchBytes TIdx view
      = Some (traits_mem_GetPitchBytes TIdx view
               * prod_list (map (getExtent view) [Suc TIdx..<Dim view]))"
    using GetPitchBytesDefault_closed [OF assms]
    by (simp add: mem_view_GetPitchBytes_def traits_mem_GetPitchBytes_def)
  have "[Suc TIdx..<Dim view] = []" if "TIdx = Dim view - 1"
    using that assms by simp
  then show ?thesis
    using closed by auto
qed

theorem pitch_traits_relation_witness:
  "(1::nat) < Dim view23
   \<and> mem_view_GetPitchBytes 1 view23
      = Some (traits_mem_GetPitchBytes 1 view23
               * prod_list (map (getExtent view23) [Suc 1..<Dim view23]))
   \<and> (1::nat) = Dim view23 - 1
   \<and> mem_view_GetPitchBytes 1 view23 = Some (traits_mem_GetPitchBytes 1 view23)"
proof -
  have d: "(1::nat) < Dim view23"
    by (simp add: view23_def Dim_def)
  have l: "(1::nat) = Dim view23 - 1"
    by (simp add: view23_def Dim_def)
  show ?thesis
    using d l pitch_traits_relation [OF d] by blast
qed

text \<open>
  C10 as it is stated has the two computations agree for every dimension index. For a view
  of two dimensions with the extents \<open>(2, 3)\<close> and elements of four bytes, the pitch of
  dimension 0 is \<open>2 * 4 = 8\<close> by the one trait and \<open>2 * (3 * 4) = 24\<close> by the other.
\<close>

theorem pitch_traits_differ:
  "(0::nat) < Dim view23
   \<and> traits_mem_GetPitchBytes 0 view23 = 8
   \<and> mem_view_GetPitchBytes 0 view23 = Some 24
   \<and> mem_view_GetPitchBytes 0 view23 \<noteq> Some (traits_mem_GetPitchBytes 0 view23)"
  by (simp add: view23_def traits_mem_GetPitchBytes_def mem_view_GetPitchBytes_def
      Dim_def getExtent_def sizeofElem_def)

end
